theory Spec2Isabelle
  imports Complex_Main "HOL-Library.Char_ord" "HOL-Library.List_Lexorder" "HOL-Library.AList"
begin

section \<open>Python values shared by the acquisition functions of tc-builder.py\<close>

text \<open>
  Exceptions that leave a function are values: a function returns \<open>pyexn + 'a\<close>, with
  \<open>Inl\<close> for an exception that reaches the caller. Strings are \<open>string\<close> compared with
  the order of \<open>Char_ord\<close> and \<open>List_Lexorder\<close>: code point by code point, a proper
  prefix first, which is the comparison of Python's \<open>str\<close>.
\<close>

datatype pyexn =
    IndexError
  | KeyError
  | ReError
  | ConnectionRefusedError
  | AttributeError
  | FtpError
  | URLError
  | IsADirectoryError
  | FileNotFoundError
  | ReadError
  | TypeError
  | OtherError

text \<open>
  A dict keeps its keys in insertion order; \<open>d[k] = v\<close> replaces the value of a key that
  is present where it stands and appends a new key at the end, which is
  \<open>AList.update\<close>. \<open>d[k]\<close> raises KeyError for a missing key.
\<close>

type_synonym ('k, 'v) pydict = "('k \<times> 'v) list"

definition getitem :: "('k, 'v) pydict \<Rightarrow> 'k \<Rightarrow> pyexn + 'v" where
  "getitem d k = (case map_of d k of None \<Rightarrow> Inl KeyError | Some v \<Rightarrow> Inr v)"

section \<open>select\_mirror\<close>

text \<open>
  The outcome of \<open>sock.connect((server, port))\<close>: the connection is made after a measured
  time, or one of the three exceptions the loop handles is raised (\<open>socket.herror\<close>,
  \<open>socket.gaierror\<close>, \<open>socket.timeout\<close>), or another \<open>OSError\<close> is raised, of which a
  refused connection is the common one. The network is a function from host and port to
  the outcome.
\<close>

datatype conn = Connected real | Herror | Gaierror | Timeout | Refused

definition port_of :: "string \<Rightarrow> nat" where
  "port_of protocol =
     (if protocol = ''HTTP'' then 80
      else if protocol = ''HTTPS'' then 443
      else if protocol = ''FTP'' then 21
      else if protocol = ''SFTP'' \<or> protocol = ''SSH'' then 22
      else 1)"

text \<open>The loop over \<open>server_list\<close>, filling \<open>benchmark\<close>.\<close>

fun probe_servers ::
  "(string \<Rightarrow> nat \<Rightarrow> conn) \<Rightarrow> nat \<Rightarrow> string list \<Rightarrow> (string, real) pydict
     \<Rightarrow> pyexn + (string, real) pydict" where
  "probe_servers net port [] benchmark = Inr benchmark"
| "probe_servers net port (server # rest) benchmark =
     (case net server port of
        Connected t \<Rightarrow> probe_servers net port rest (AList.update server t benchmark)
      | Herror \<Rightarrow> probe_servers net port rest benchmark
      | Gaierror \<Rightarrow> probe_servers net port rest benchmark
      | Timeout \<Rightarrow> probe_servers net port rest benchmark
      | Refused \<Rightarrow> Inl ConnectionRefusedError)"

text \<open>
  The result is \<open>None\<close> for the pair \<open>(None, None)\<close> and \<open>Some (server, latency)\<close>
  otherwise. \<open>sorted\<close> with a key is stable, as \<open>sort_key\<close> is.
\<close>

definition select_mirror ::
  "(string \<Rightarrow> nat \<Rightarrow> conn) \<Rightarrow> string list \<Rightarrow> int \<Rightarrow> string
     \<Rightarrow> pyexn + (string \<times> real) option" where
  "select_mirror net server_list priority protocol =
     (case probe_servers net (port_of protocol) server_list [] of
        Inl e \<Rightarrow> Inl e
      | Inr benchmark \<Rightarrow>
          (let valid_servers = int (length benchmark) in
           if valid_servers \<le> 0 then Inr None
           else
             (let priority1 = min valid_servers priority - 1;
                  priority2 = max 0 priority1;
                  sorted_servers = sort_key snd benchmark
              in if nat priority2 < length sorted_servers
                 then Inr (Some (sorted_servers ! nat priority2))
                 else Inl IndexError)))"

section \<open>Version selection in ftp\_get and html\_get\<close>

text \<open>
  \<open>re.compile\<close> and \<open>fullmatch\<close> are the regular expression library: a pattern compiles
  to a matcher or raises \<open>re.error\<close>, and a matcher gives for a name the list of its
  groups, the whole match first, or nothing. \<open>m.group(g)\<close> raises IndexError for a group
  the pattern does not have.
\<close>

type_synonym matcher = "string \<Rightarrow> string list option"

definition group :: "string list \<Rightarrow> int \<Rightarrow> pyexn + string" where
  "group m g = (if 0 \<le> g \<and> nat g < length m then Inr (m ! nat g) else Inl IndexError)"

text \<open>
  The two dicts a listing is collected into, \<open>id: version\<close> and \<open>id: name\<close>, with the
  next id. The third dict of the source, \<open>id: modified date\<close>, is written and never read
  (the line that sorts by it is commented out) and is left out.
\<close>

record matches =
  version_of :: "(nat, string) pydict"
  name_of :: "(nat, string) pydict"
  keyid :: nat

definition no_matches :: matches where
  "no_matches = \<lparr>version_of = [], name_of = [], keyid = 0\<rparr>"

fun collect :: "matcher \<Rightarrow> int \<Rightarrow> string list \<Rightarrow> matches \<Rightarrow> pyexn + matches" where
  "collect fm g [] acc = Inr acc"
| "collect fm g (name # rest) acc =
     (case fm name of
        None \<Rightarrow> collect fm g rest acc
      | Some m \<Rightarrow>
          (case group m g of
             Inl e \<Rightarrow> Inl e
           | Inr ver \<Rightarrow>
               collect fm g rest
                 \<lparr>version_of = AList.update (keyid acc) ver (version_of acc),
                  name_of = AList.update (keyid acc) name (name_of acc),
                  keyid = Suc (keyid acc)\<rparr>))"

text \<open>
  \<open>for key, ver in d.items(): if ver == preferred: found = key; break\<close>, with
  \<open>found = None\<close> before the loop.
\<close>

fun find_key :: "(nat, string) pydict \<Rightarrow> string \<Rightarrow> nat option" where
  "find_key [] preferred = None"
| "find_key ((key, ver) # rest) preferred =
     (if ver = preferred then Some key else find_key rest preferred)"

text \<open>The truth value Python gives to \<open>None\<close> or an integer in a condition.\<close>

definition truthy :: "nat option \<Rightarrow> bool" where
  "truthy k = (case k of None \<Rightarrow> False | Some n \<Rightarrow> n \<noteq> 0)"

text \<open>\<open>sorted(d.items(), key=itemgetter(1), reverse=False).pop()\<close>\<close>

definition pop_latest :: "(nat, string) pydict \<Rightarrow> pyexn + (nat \<times> string)" where
  "pop_latest d =
     (case sort_key snd d of [] \<Rightarrow> Inl IndexError | x # xs \<Rightarrow> Inr (last (x # xs)))"

text \<open>ftp\_get, from \<open>foundkey = None\<close> to \<open>final_archive\<close>.\<close>

definition ftp_choose :: "matches \<Rightarrow> string \<Rightarrow> pyexn + string" where
  "ftp_choose ms preferred_version =
     (let foundkey = find_key (version_of ms) preferred_version in
      case (if truthy foundkey then foundkey else None) of
        Some k \<Rightarrow> getitem (name_of ms) k
      | None \<Rightarrow>
          (case pop_latest (version_of ms) of
             Inl e \<Rightarrow> Inl e
           | Inr (latestid, stamp) \<Rightarrow> getitem (name_of ms) latestid))"

text \<open>html\_get, from \<open>file_id = None\<close> to \<open>final_url = archive_info[file_id]\<close>.\<close>

definition html_choose :: "matches \<Rightarrow> string \<Rightarrow> pyexn + string" where
  "html_choose ms preferred_version =
     (let file_id = find_key (version_of ms) preferred_version in
      if \<not> truthy file_id then
        (case pop_latest (version_of ms) of
           Inl e \<Rightarrow> Inl e
         | Inr (file_id', ver) \<Rightarrow> getitem (name_of ms) file_id')
      else (case file_id of Some k \<Rightarrow> getitem (name_of ms) k | None \<Rightarrow> Inl KeyError))"

text \<open>
  The dicts that the loop builds from the matched entries \<open>(name, version)\<close> of a listing,
  in listing order.
\<close>

definition matched :: "(string \<times> string) list \<Rightarrow> matches" where
  "matched es =
     \<lparr>version_of = enumerate 0 (map snd es), name_of = enumerate 0 (map fst es),
      keyid = length es\<rparr>"

section \<open>The file system, the trace of outside effects, and the functions that act on them\<close>

text \<open>
  The file system maps a path, as the program passes it to the operating system, to a file
  with its bytes or to a directory. Two different path strings are two different entries:
  links and the equivalence of relative and absolute spellings are not modelled. The trace
  records, in order, every command sent to an FTP server, every HTTP request and every
  call into \<open>tarfile\<close>. The process has its environment variables, \<open>os.environ\<close>, and
  its current directory.
\<close>

datatype node = File string | Dir

datatype event =
    FtpConnect string
  | FtpLogin
  | FtpCwd string
  | FtpMlsd
  | FtpNlst
  | FtpRetr string
  | FtpQuit
  | HttpOpen string
  | HttpRetrieve string string
  | TarOpen string
  | TarExtractAll string string

record world =
  nodes :: "string \<rightharpoonup> node"
  trace :: "event list"
  environ :: "string \<rightharpoonup> string"
  cwd :: string

text \<open>
  A function with effects takes the world and returns its result, or the exception that
  left it, with the world as it is then.
\<close>

type_synonym 'a io = "world \<Rightarrow> (pyexn + 'a) \<times> world"

definition ret :: "'a \<Rightarrow> 'a io" where
  "ret x w = (Inr x, w)"

definition raise :: "pyexn \<Rightarrow> 'a io" where
  "raise e w = (Inl e, w)"

definition bind :: "'a io \<Rightarrow> ('a \<Rightarrow> 'b io) \<Rightarrow> 'b io" where
  "bind m f w = (case m w of (Inl e, w') \<Rightarrow> (Inl e, w') | (Inr x, w') \<Rightarrow> f x w')"

definition lift :: "pyexn + 'a \<Rightarrow> 'a io" where
  "lift r w = (r, w)"

definition emit :: "event \<Rightarrow> unit io" where
  "emit e w = (Inr (), w\<lparr>trace := trace w @ [e]\<rparr>)"

definition exists :: "string \<Rightarrow> bool io" where
  "exists path w = (Inr (nodes w path \<noteq> None), w)"

definition makedirs :: "string \<Rightarrow> unit io" where
  "makedirs path w = (Inr (), w\<lparr>nodes := (nodes w)(path \<mapsto> Dir)\<rparr>)"

definition write_file :: "string \<Rightarrow> string \<Rightarrow> unit io" where
  "write_file path bytes w =
     (case nodes w path of
        Some Dir \<Rightarrow> (Inl IsADirectoryError, w)
      | _ \<Rightarrow> (Inr (), w\<lparr>nodes := (nodes w)(path \<mapsto> File bytes)\<rparr>))"

definition read_file :: "string \<Rightarrow> string io" where
  "read_file path w =
     (case nodes w path of
        None \<Rightarrow> (Inl FileNotFoundError, w)
      | Some Dir \<Rightarrow> (Inl IsADirectoryError, w)
      | Some (File bytes) \<Rightarrow> (Inr bytes, w))"

text \<open>The truth value of a string argument that may be \<open>None\<close>.\<close>

definition falsy :: "string option \<Rightarrow> bool" where
  "falsy s = (case s of None \<Rightarrow> True | Some t \<Rightarrow> t = [])"

section \<open>untar\<close>

text \<open>
  \<open>hash_file_md5\<close> feeds the file to an MD5 object in blocks of 128 bytes. The object is
  the message fed to it so far; \<open>hexdigest\<close>, the library's digest of a message, is a
  parameter.
\<close>

function md5_update_loop :: "string \<Rightarrow> string \<Rightarrow> string" where
  "md5_update_loop f md5 =
     (let data = take 128 f in
      if data = [] then md5 else md5_update_loop (drop 128 f) (md5 @ data))"
  by pat_completeness auto
termination
  by (relation "measure (\<lambda>(f, md5). length f)") auto

declare md5_update_loop.simps [simp del]

definition hash_file_md5 :: "(string \<Rightarrow> string) \<Rightarrow> string \<Rightarrow> string option io" where
  "hash_file_md5 hexdigest filename =
     bind (exists filename) (\<lambda>found.
       if \<not> found then ret None
       else bind (read_file filename) (\<lambda>f. ret (Some (hexdigest (md5_update_loop f [])))))"

text \<open>\<open>a in b\<close> on two strings: \<open>a\<close> occurs in \<open>b\<close> as a contiguous run.\<close>

fun str_in :: "string \<Rightarrow> string \<Rightarrow> bool" where
  "str_in a [] = (a = [])"
| "str_in a (c # b) = (take (length a) (c # b) = a \<or> str_in a b)"

text \<open>
  What \<open>tarfile.open\<close> and \<open>extractall\<close> do with the archive in one run: the archive
  cannot be opened (\<open>tarfile.ReadError\<close>), or it is opened and extraction completes, or
  extraction raises \<open>tarfile.ExtractError\<close>, an \<open>IOError\<close>, or something else. A
  \<open>TarFile\<close> object is always true in a condition, so the \<open>else\<close> of \<open>if hFile\<close> is
  never taken. The files that extraction leaves under the destination are outside the
  model; the trace records that it ran.
\<close>

datatype tar = CannotOpen | Extracts | RaisesExtractError | RaisesIOError | RaisesOther

definition extract_and_record ::
  "tar \<Rightarrow> string \<Rightarrow> string \<Rightarrow> string \<Rightarrow> string option \<Rightarrow> string option io" where
  "extract_and_record t source_archive destination_folder source_md5_file new_md5 =
     bind (emit (TarOpen source_archive)) (\<lambda>_.
       if t = CannotOpen then raise ReadError
       else
         bind (emit (TarExtractAll source_archive destination_folder)) (\<lambda>_.
           if t = RaisesOther then raise OtherError
           else
             (let extract_ok = (t = Extracts) in
              bind (if extract_ok
                    then (case new_md5 of
                            None \<Rightarrow> raise TypeError
                          | Some h \<Rightarrow> write_file source_md5_file h)
                    else ret ()) (\<lambda>_.
                ret (Some destination_folder)))))"

definition untar ::
  "(string \<Rightarrow> string) \<Rightarrow> tar \<Rightarrow> string \<Rightarrow> string \<Rightarrow> string option io" where
  "untar hexdigest t source_archive destination_folder =
     bind (exists source_archive) (\<lambda>found.
       if \<not> found then ret None
       else
         bind (exists destination_folder) (\<lambda>have_dest.
         bind (if \<not> have_dest then makedirs destination_folder else ret ()) (\<lambda>_.
         (let source_md5_file = source_archive @ ''.md5'' in
          bind (hash_file_md5 hexdigest source_archive) (\<lambda>new_md5.
          bind (exists source_md5_file) (\<lambda>have_md5.
          bind (if have_md5
                then bind (read_file source_md5_file) (\<lambda>old_md5.
                       case new_md5 of
                         None \<Rightarrow> raise TypeError
                       | Some h \<Rightarrow> ret (str_in h old_md5))
                else ret False) (\<lambda>same.
            if same then ret (Some destination_folder)
            else extract_and_record t source_archive destination_folder
                   source_md5_file new_md5)))))))"

section \<open>Library functions and servers\<close>

text \<open>
  The functions of \<open>os.path\<close>, \<open>urllib.parse\<close> and \<open>re\<close> that the program calls are
  parameters; \<open>abspath\<close> takes the current directory first. What is proved holds for
  every choice of them.
\<close>

record lib =
  join :: "string \<Rightarrow> string \<Rightarrow> string"
  dirname :: "string \<Rightarrow> string"
  basename :: "string \<Rightarrow> string"
  abspath :: "string \<Rightarrow> string \<Rightarrow> string"
  urljoin :: "string \<Rightarrow> string \<Rightarrow> string"
  url_netloc :: "string \<Rightarrow> string"
  url_path :: "string \<Rightarrow> string"
  re_compile :: "string \<Rightarrow> matcher option"

text \<open>
  An FTP server, as the session sees it: whether \<open>connect\<close> and \<open>login\<close> succeed; and,
  after the \<open>CWD\<close> commands accepted so far, whether a further \<open>CWD\<close> is accepted, what
  \<open>MLSD\<close> lists (name and \<open>type\<close> fact of each entry) or that it is refused, what
  \<open>NLST\<close> lists, and the bytes \<open>RETR\<close> sends for a name. \<open>None\<close> is an error of
  \<open>ftplib.all_errors\<close>. \<open>mlsd\<close> sends its commands when the first entry is asked for and
  reads the whole answer before it yields one, so a refusal comes before any entry.
\<close>

datatype session = Unreachable | Denied | LoggedIn

record ftp_site =
  login :: session
  cwd_ok :: "string list \<Rightarrow> string \<Rightarrow> bool"
  mlsd :: "string list \<Rightarrow> (string \<times> string) list option"
  nlst :: "string list \<Rightarrow> string list option"
  retr :: "string list \<Rightarrow> string \<Rightarrow> string option"

text \<open>
  The web: the \<open>href\<close> of every anchor of the page at a URL, in document order, and the
  bytes of the resource at a URL. \<open>None\<close> is an error raised by \<open>urlopen\<close> or
  \<open>urlretrieve\<close>.
\<close>

record web =
  page :: "string \<Rightarrow> string list option"
  resource :: "string \<Rightarrow> string option"

text \<open>What ftp\_get and html\_get return: \<open>None\<close>, \<open>False\<close> or the saving path.\<close>

datatype result = RNone | RFalse | RPath string

definition str_of :: "string option \<Rightarrow> string" where
  "str_of s = (case s of None \<Rightarrow> [] | Some t \<Rightarrow> t)"

section \<open>ftp\_get\<close>

text \<open>
  \<open>ftp.connect\<close> and \<open>ftp.login\<close> with their handler. When the connection is never
  made, the \<open>ftp.quit()\<close> of the handler runs on a session that has no socket and raises
  AttributeError; when the login is refused, \<open>QUIT\<close> is sent and ftp\_get returns
  \<open>False\<close>.
\<close>

definition ftp_connect_login :: "ftp_site \<Rightarrow> string \<Rightarrow> bool io" where
  "ftp_connect_login site server =
     bind (emit (FtpConnect server)) (\<lambda>_.
       case login site of
         Unreachable \<Rightarrow> raise AttributeError
       | Denied \<Rightarrow> bind (emit FtpLogin) (\<lambda>_. bind (emit FtpQuit) (\<lambda>_. ret False))
       | LoggedIn \<Rightarrow> bind (emit FtpLogin) (\<lambda>_. ret True))"

definition ftp_cwd :: "ftp_site \<Rightarrow> string list \<Rightarrow> string \<Rightarrow> string list io" where
  "ftp_cwd site dirs d =
     bind (emit (FtpCwd d)) (\<lambda>_.
       if cwd_ok site dirs d then ret (dirs @ [d]) else raise FtpError)"

text \<open>
  The listing loops of ftp\_get: \<open>MLSD\<close>, keeping the entries of the wanted type, and
  \<open>NLST\<close> when \<open>MLSD\<close> is refused.
\<close>

definition ftp_listing ::
  "ftp_site \<Rightarrow> string list \<Rightarrow> matcher \<Rightarrow> int \<Rightarrow> string \<Rightarrow> matches io" where
  "ftp_listing site dirs fm g kind =
     bind (emit FtpMlsd) (\<lambda>_.
       case mlsd site dirs of
         Some listing \<Rightarrow>
           lift (collect fm g (map fst (filter (\<lambda>(name, ty). ty = kind) listing)) no_matches)
       | None \<Rightarrow>
           bind (emit FtpNlst) (\<lambda>_.
             case nlst site dirs of
               None \<Rightarrow> raise FtpError
             | Some name_list \<Rightarrow> lift (collect fm g name_list no_matches)))"

text \<open>The block \<open>if folder_re:\<close>, which moves into the folder of the chosen version.\<close>

definition ftp_version_folder ::
  "lib \<Rightarrow> ftp_site \<Rightarrow> string list \<Rightarrow> string \<Rightarrow> string option \<Rightarrow> int \<Rightarrow> string
     \<Rightarrow> string list io" where
  "ftp_version_folder L site dirs folder folder_re folder_version_capture_group
       preferred_folder_version =
     (if falsy folder_re then ret dirs
      else
        (case re_compile L (str_of folder_re) of
           None \<Rightarrow> raise ReError
         | Some fre \<Rightarrow>
             bind (ftp_listing site dirs fre folder_version_capture_group ''dir'') (\<lambda>ms.
             bind (lift (ftp_choose ms preferred_folder_version)) (\<lambda>chosen.
               ftp_cwd site dirs (urljoin L folder chosen)))))"

text \<open>The saving path, computed the same way by ftp\_get and html\_get.\<close>

definition save_target :: "lib \<Rightarrow> string option \<Rightarrow> string \<Rightarrow> string io" where
  "save_target L save_path final_archive =
     (if falsy save_path then (\<lambda>w. ret (join L (cwd w) final_archive) w)
      else
        (let dir_name = dirname L (str_of save_path);
             filename = basename L (str_of save_path)
         in bind (if dir_name \<noteq> []
                  then bind (exists dir_name) (\<lambda>there.
                         if \<not> there then makedirs dir_name else ret ())
                  else ret ()) (\<lambda>_.
              (\<lambda>w. ret (abspath L (cwd w)
                           (if filename \<noteq> [] then str_of save_path
                            else join L dir_name final_archive)) w))))"

text \<open>
  \<open>ftp.retrbinary(retrieve_cmd, open(final_path, "wb").write)\<close>: the file is created
  empty when the argument is evaluated, before \<open>RETR\<close> is sent.
\<close>

definition ftp_retrieve :: "ftp_site \<Rightarrow> string list \<Rightarrow> string \<Rightarrow> string \<Rightarrow> unit io" where
  "ftp_retrieve site dirs final_archive final_path =
     bind (write_file final_path []) (\<lambda>_.
     bind (emit (FtpRetr final_archive)) (\<lambda>_.
       case retr site dirs final_archive of
         None \<Rightarrow> raise FtpError
       | Some bytes \<Rightarrow> write_file final_path bytes))"

text \<open>
  ftp\_get after its guards, in two parts: the session from \<open>ftp = FTP()\<close> to the choice
  of \<open>final_archive\<close>, which gives nothing when the login is refused, and the rest, from
  \<open>final_path = None\<close> to the end.
\<close>

definition ftp_locate ::
  "lib \<Rightarrow> ftp_site \<Rightarrow> string \<Rightarrow> string \<Rightarrow> string \<Rightarrow> int \<Rightarrow> string \<Rightarrow> string option \<Rightarrow> int
     \<Rightarrow> string \<Rightarrow> (string list \<times> string) option io" where
  "ftp_locate L site server folder filename_re file_version_capture_group preferred_version
       folder_re folder_version_capture_group preferred_folder_version =
     bind (ftp_connect_login site server) (\<lambda>logged_in.
       if \<not> logged_in then ret None
       else
         bind (ftp_cwd site [] folder) (\<lambda>dirs0.
         bind (ftp_version_folder L site dirs0 folder folder_re
                 folder_version_capture_group preferred_folder_version) (\<lambda>dirs.
           case re_compile L filename_re of
             None \<Rightarrow> raise ReError
           | Some fnre \<Rightarrow>
               bind (ftp_listing site dirs fnre file_version_capture_group ''file'') (\<lambda>ms.
               bind (lift (ftp_choose ms preferred_version)) (\<lambda>final_archive.
                 ret (Some (dirs, final_archive)))))))"

definition ftp_store ::
  "lib \<Rightarrow> ftp_site \<Rightarrow> string list \<Rightarrow> string option \<Rightarrow> string \<Rightarrow> result io" where
  "ftp_store L site dirs save_path final_archive =
     bind (save_target L save_path final_archive) (\<lambda>final_path.
     bind (exists final_path) (\<lambda>there.
       if there then bind (emit FtpQuit) (\<lambda>_. ret (RPath final_path))
       else
         bind (ftp_retrieve site dirs final_archive final_path) (\<lambda>_.
         bind (emit FtpQuit) (\<lambda>_. ret (RPath final_path)))))"

definition ftp_get ::
  "lib \<Rightarrow> (string \<Rightarrow> ftp_site) \<Rightarrow> string option \<Rightarrow> string option \<Rightarrow> string option \<Rightarrow> int
     \<Rightarrow> string option \<Rightarrow> string \<Rightarrow> string option \<Rightarrow> int \<Rightarrow> string \<Rightarrow> result io" where
  "ftp_get L net server folder filename_re file_version_capture_group save_path
       preferred_version folder_re folder_version_capture_group preferred_folder_version =
     (if falsy server then ret RNone
      else if falsy folder then ret RNone
      else if falsy filename_re then ret RNone
      else if file_version_capture_group < 1 then ret RNone
      else
        (let site = net (str_of server) in
         bind (ftp_locate L site (str_of server) (str_of folder) (str_of filename_re)
                 file_version_capture_group preferred_version folder_re
                 folder_version_capture_group preferred_folder_version) (\<lambda>found.
           case found of
             None \<Rightarrow> ret RFalse
           | Some (dirs, final_archive) \<Rightarrow> ftp_store L site dirs save_path final_archive)))"

section \<open>html\_get\<close>

text \<open>
  html\_get after its guards, in two parts: from \<open>request.urlopen(url)\<close> to the choice of
  the link, and the rest, from \<open>final_url = archive_info[file_id]\<close> to the end.
\<close>

definition html_locate :: "lib \<Rightarrow> web \<Rightarrow> string \<Rightarrow> string \<Rightarrow> int \<Rightarrow> string \<Rightarrow> string io" where
  "html_locate L W url filename_re file_version_capture_group preferred_version =
     bind (emit (HttpOpen url)) (\<lambda>_.
       case page W url of
         None \<Rightarrow> raise URLError
       | Some hrefs \<Rightarrow>
           (case re_compile L filename_re of
              None \<Rightarrow> raise ReError
            | Some file_regex \<Rightarrow>
                bind (lift (collect file_regex file_version_capture_group hrefs
                              no_matches)) (\<lambda>ms.
                  lift (html_choose ms preferred_version))))"

definition html_store :: "lib \<Rightarrow> web \<Rightarrow> string \<Rightarrow> string option \<Rightarrow> string \<Rightarrow> result io" where
  "html_store L W url save_path href =
     (let final_url = (if url_netloc L href = [] then urljoin L url href else href);
          final_archive = basename L (url_path L href)
      in bind (save_target L save_path final_archive) (\<lambda>final_path.
         bind (exists final_path) (\<lambda>there.
           if there then ret (RPath final_path)
           else
             bind (emit (HttpRetrieve final_url final_path)) (\<lambda>_.
               case resource W final_url of
                 None \<Rightarrow> raise URLError
               | Some bytes \<Rightarrow>
                   bind (write_file final_path bytes) (\<lambda>_.
                     if final_path \<noteq> [] then ret (RPath final_path) else ret RNone)))))"

definition html_get ::
  "lib \<Rightarrow> web \<Rightarrow> string option \<Rightarrow> string option \<Rightarrow> int \<Rightarrow> string option \<Rightarrow> string
     \<Rightarrow> result io" where
  "html_get L W url filename_re file_version_capture_group save_path preferred_version =
     (if falsy url then ret RNone
      else if falsy filename_re then ret RNone
      else
        bind (html_locate L W (str_of url) (str_of filename_re) file_version_capture_group
                preferred_version) (\<lambda>href.
          html_store L W (str_of url) save_path href))"

section \<open>set\_env and restore\_env\<close>

definition LOCATIONS :: "(string, string) pydict" where
  "LOCATIONS =
     [(''pkg_dir'', ''./pkgs/''),
      (''mingw_w64_i686_prefix'', ''./mingw-w64-i686/''),
      (''mingw_w64_x86_64_prefix'', ''./mingw-w64-x86_64/''),
      (''mingw_w64_source_dir'', ''./source/''),
      (''mingw_w64_build_dir'', ''./build/'')]"

definition environ_get :: "string \<Rightarrow> string io" where
  "environ_get k w = (case environ w k of None \<Rightarrow> (Inl KeyError, w) | Some v \<Rightarrow> (Inr v, w))"

definition environ_set :: "string \<Rightarrow> string \<Rightarrow> unit io" where
  "environ_set k v w = (Inr (), w\<lparr>environ := (environ w)(k \<mapsto> v)\<rparr>)"

definition getcwd :: "string io" where
  "getcwd w = (Inr (cwd w), w)"

definition chdir :: "lib \<Rightarrow> string \<Rightarrow> unit io" where
  "chdir L path w =
     (if nodes w path = Some Dir then (Inr (), w\<lparr>cwd := abspath L (cwd w) path\<rparr>)
      else (Inl FileNotFoundError, w))"

text \<open>The dict with the keys \<open>"old_path"\<close> and \<open>"old_cc"\<close> that set\_env returns.\<close>

record origin =
  old_path :: string
  old_cc :: string

definition set_env :: "lib \<Rightarrow> string \<Rightarrow> bool \<Rightarrow> origin io" where
  "set_env L WORK_FOLDER x86_64 =
     bind (environ_get ''PATH'') (\<lambda>path0.
     bind (environ_get ''CC'') (\<lambda>cc0.
     bind getcwd (\<lambda>current_dir.
     bind (chdir L WORK_FOLDER) (\<lambda>_.
     bind (lift (getitem LOCATIONS ''mingw_w64_i686_prefix'')) (\<lambda>loc_x86.
     bind getcwd (\<lambda>here.
     bind (lift (getitem LOCATIONS ''mingw_w64_x86_64_prefix'')) (\<lambda>loc_x86_64.
     bind (environ_get ''PATH'') (\<lambda>old_path_var.
       (let prefix_x86 = join L (abspath L here loc_x86) ''bin'';
            prefix_x86_64 = join L (abspath L here loc_x86_64) ''bin'';
            x86_env_path = prefix_x86 @ '':'' @ old_path_var;
            x86_64_env_path = prefix_x86_64 @ '':'' @ old_path_var
        in bind (if x86_64 then environ_set ''PATH'' x86_64_env_path
                 else environ_set ''PATH'' x86_env_path) (\<lambda>_.
           bind (environ_set ''CC'' ''gcc'') (\<lambda>_.
           bind (chdir L current_dir) (\<lambda>_.
             ret \<lparr>old_path = path0, old_cc = cc0\<rparr>))))))))))))"

definition restore_env :: "origin \<Rightarrow> unit io" where
  "restore_env old_env =
     (let cc0 = old_cc old_env; path0 = old_path old_env
      in bind (if cc0 \<noteq> [] then environ_set ''CC'' cc0 else ret ()) (\<lambda>_.
           if path0 \<noteq> [] then environ_set ''PATH'' path0 else ret ()))"

section \<open>Notions used in the statements and proofs\<close>

text \<open>
  The world after \<open>if not os.path.exists(d): os.makedirs(d)\<close>.
\<close>

definition made :: "string \<Rightarrow> world \<Rightarrow> world" where
  "made d w = (if nodes w d = None then w\<lparr>nodes := (nodes w)(d \<mapsto> Dir)\<rparr> else w)"

text \<open>The value of \<open>final_path\<close> that save\_target computes in the directory \<open>here\<close>.\<close>

definition target_path :: "lib \<Rightarrow> string option \<Rightarrow> string \<Rightarrow> string \<Rightarrow> string" where
  "target_path L save_path final_archive here =
     (if falsy save_path then join L here final_archive
      else abspath L here
             (if basename L (str_of save_path) \<noteq> [] then str_of save_path
              else join L (dirname L (str_of save_path)) final_archive))"

text \<open>
  An action that only appends events to the trace: its result and the events are the same
  in every world, and every event satisfies \<open>P\<close>.
\<close>

definition only_emits :: "(event \<Rightarrow> bool) \<Rightarrow> 'a io \<Rightarrow> bool" where
  "only_emits P m =
     (\<exists>r tr. list_all P tr \<and> (\<forall>w. m w = (r, w\<lparr>trace := trace w @ tr\<rparr>)))"

text \<open>The events that transfer no file: all but \<open>RETR\<close> and \<open>urlretrieve\<close>.\<close>

definition listing_event :: "event \<Rightarrow> bool" where
  "listing_event e =
     (case e of FtpRetr n \<Rightarrow> False | HttpRetrieve u p \<Rightarrow> False | _ \<Rightarrow> True)"

section \<open>A library, servers and a starting world to run the functions on\<close>

text \<open>
  \<open>posixpath.join\<close> of two arguments, \<open>basename\<close>, \<open>dirname\<close>, \<open>normpath\<close> and
  \<open>abspath\<close>; \<open>urlparse\<close> and \<open>urljoin\<close> for URLs without query, fragment or
  dot segments; one compiled pattern, \<open>pkg-([0-9.]+)[.]tar[.]gz\<close>; a digest of 32
  characters; an FTP server without \<open>MLSD\<close>, as the GNU servers are; a page of links.
\<close>

definition posix_join :: "string \<Rightarrow> string \<Rightarrow> string" where
  "posix_join a b =
     (if b \<noteq> [] \<and> hd b = CHR ''/'' then b
      else if a = [] \<or> last a = CHR ''/'' then a @ b
      else a @ ''/'' @ b)"

definition posix_basename :: "string \<Rightarrow> string" where
  "posix_basename p = rev (takeWhile (\<lambda>c. c \<noteq> CHR ''/'') (rev p))"

definition posix_dirname :: "string \<Rightarrow> string" where
  "posix_dirname p =
     (let head = rev (dropWhile (\<lambda>c. c \<noteq> CHR ''/'') (rev p)) in
      if head \<noteq> [] \<and> head \<noteq> replicate (length head) (CHR ''/'')
      then rev (dropWhile (\<lambda>c. c = CHR ''/'') (rev head))
      else head)"

fun split_slash :: "string \<Rightarrow> string \<Rightarrow> string list" where
  "split_slash cur [] = [rev cur]"
| "split_slash cur (c # cs) =
     (if c = CHR ''/'' then rev cur # split_slash [] cs else split_slash (c # cur) cs)"

fun join_slash :: "string list \<Rightarrow> string" where
  "join_slash [] = []"
| "join_slash [c] = c"
| "join_slash (c # d # cs) = c @ ''/'' @ join_slash (d # cs)"

text \<open>
  The loop of \<open>normpath\<close> over the components, with the stack \<open>new_comps\<close> kept in
  reverse.
\<close>

fun norm_comps :: "bool \<Rightarrow> string list \<Rightarrow> string list \<Rightarrow> string list" where
  "norm_comps initial_slashes [] new_comps = rev new_comps"
| "norm_comps initial_slashes (part # parts) new_comps =
     (if part = [] \<or> part = ''.'' then norm_comps initial_slashes parts new_comps
      else if part \<noteq> ''..'' \<or> (\<not> initial_slashes \<and> new_comps = []) \<or>
              (new_comps \<noteq> [] \<and> hd new_comps = ''..'')
      then norm_comps initial_slashes parts (part # new_comps)
      else if new_comps \<noteq> [] then norm_comps initial_slashes parts (tl new_comps)
      else norm_comps initial_slashes parts new_comps)"

definition posix_normpath :: "string \<Rightarrow> string" where
  "posix_normpath path =
     (if path = [] then ''.''
      else
        (let initial_slashes = (hd path = CHR ''/'');
             slashes = (if initial_slashes \<and> take 2 path = ''//'' \<and> take 3 path \<noteq> ''///''
                        then ''//''
                        else if initial_slashes then ''/'' else []);
             out = slashes @ join_slash (norm_comps initial_slashes (split_slash [] path) [])
         in if out = [] then ''.'' else out))"

definition posix_abspath :: "string \<Rightarrow> string \<Rightarrow> string" where
  "posix_abspath here path = posix_normpath (posix_join here path)"

text \<open>
  A URL is split at the first \<open>://\<close> into scheme and rest, and the rest at the first
  slash into host and path; without \<open>://\<close> the whole is the path.
\<close>

fun split_scheme :: "string \<Rightarrow> string \<Rightarrow> (string \<times> string) option" where
  "split_scheme seen [] = None"
| "split_scheme seen (c # cs) =
     (if take 3 (c # cs) = ''://'' then Some (rev seen, drop 3 (c # cs))
      else split_scheme (c # seen) cs)"

definition url_scheme_of :: "string \<Rightarrow> string" where
  "url_scheme_of u = (case split_scheme [] u of None \<Rightarrow> [] | Some (scheme, rest) \<Rightarrow> scheme)"

definition url_netloc_of :: "string \<Rightarrow> string" where
  "url_netloc_of u =
     (case split_scheme [] u of
        None \<Rightarrow> []
      | Some (scheme, rest) \<Rightarrow> takeWhile (\<lambda>c. c \<noteq> CHR ''/'') rest)"

definition url_path_of :: "string \<Rightarrow> string" where
  "url_path_of u =
     (case split_scheme [] u of
        None \<Rightarrow> u
      | Some (scheme, rest) \<Rightarrow> dropWhile (\<lambda>c. c \<noteq> CHR ''/'') rest)"

definition url_join :: "string \<Rightarrow> string \<Rightarrow> string" where
  "url_join base u =
     (if u = [] then base
      else if base = [] \<or> split_scheme [] u \<noteq> None then u
      else
        (let origin = (if split_scheme [] base = None then []
                       else url_scheme_of base @ ''://'' @ url_netloc_of base);
             base_path = url_path_of base
         in if hd u = CHR ''/'' then origin @ u
            else if base_path = [] then origin @ ''/'' @ u
            else origin @ rev (dropWhile (\<lambda>c. c \<noteq> CHR ''/'') (rev base_path)) @ u))"

definition pkg_matcher :: matcher where
  "pkg_matcher name =
     (let n = length name; ver = take (n - 11) (drop 4 name) in
      if 11 < n \<and> take 4 name = ''pkg-'' \<and> drop (n - 7) name = ''.tar.gz'' \<and>
         list_all (\<lambda>c. c \<in> set ''0123456789.'') ver
      then Some [name, ver] else None)"

definition posix :: lib where
  "posix =
     \<lparr>join = posix_join, dirname = posix_dirname, basename = posix_basename,
      abspath = posix_abspath, urljoin = url_join,
      url_netloc = url_netloc_of, url_path = url_path_of,
      re_compile = (\<lambda>pattern. if pattern = ''pkg-([0-9.]+)[.]tar[.]gz''
                               then Some pkg_matcher else None)\<rparr>"

definition hex32 :: "string \<Rightarrow> string" where
  "hex32 m = take 32 (m @ replicate 32 (CHR ''0''))"

definition gnu_site :: ftp_site where
  "gnu_site =
     \<lparr>login = LoggedIn, cwd_ok = (\<lambda>dirs d. True), mlsd = (\<lambda>dirs. None),
      nlst = (\<lambda>dirs. Some [''pkg-1.0.tar.gz'', ''README'', ''pkg-2.5.tar.gz'']),
      retr = (\<lambda>dirs name. Some (''archive '' @ name))\<rparr>"

definition releases :: web where
  "releases =
     \<lparr>page = (\<lambda>u. Some [''pkg-1.0.tar.gz'', ''index.html'', ''pkg-2.5.tar.gz'']),
      resource = (\<lambda>u. Some (''archive '' @ u))\<rparr>"

definition start_world :: world where
  "start_world =
     \<lparr>nodes = [''/home/user/MWTC'' \<mapsto> Dir, ''/home/user'' \<mapsto> Dir,
               ''dl/gcc.tar.gz'' \<mapsto> File ''tarball''],
      trace = [],
      environ = [''PATH'' \<mapsto> ''/usr/bin'', ''CC'' \<mapsto> ''clang''],
      cwd = ''/home/user''\<rparr>"

section \<open>Properties of the version selection\<close>

lemma find_key_None: "find_key d p = None \<longleftrightarrow> p \<notin> snd ` set d"
  by (induction d p rule: find_key.induct) auto

lemma update_enumerate:
  "AList.update (n + length xs) v (enumerate n xs) = enumerate n (xs @ [v])"
proof (induction xs arbitrary: n)
  case Nil
  then show ?case by simp
next
  case (Cons x xs)
  from Cons.IH [of "Suc n"] show ?case by (simp add: enumerate_append_eq)
qed

lemma getitem_enumerate:
  assumes "i < length xs"
  shows "getitem (enumerate 0 xs) i = Inr (xs ! i)"
proof -
  have "map_of (zip [0..<length xs] xs) ([0..<length xs] ! i) = Some (xs ! i)"
    using assms by (intro map_of_zip_nth) simp_all
  then show ?thesis using assms by (simp add: getitem_def enumerate_eq_zip)
qed

lemma sorted_le_last:
  fixes ys :: "('a::linorder) list"
  assumes "sorted ys" "y \<in> set ys"
  shows "y \<le> last ys"
proof -
  from assms(2) have ne: "ys \<noteq> []" by auto
  then have "ys = butlast ys @ [last ys]" by simp
  then have "sorted (butlast ys @ [last ys])" using assms(1) by simp
  then have "\<forall>x \<in> set (butlast ys). x \<le> last ys" by (simp add: sorted_append)
  moreover have "y \<in> set (butlast ys) \<or> y = last ys"
    using assms(2) ne
    by (metis Un_iff append_butlast_last_id insert_iff list.set(2) set_append empty_iff
        list.set(1))
  ultimately show ?thesis by auto
qed

lemma last_sort_key_max:
  fixes f :: "'a \<Rightarrow> 'b::linorder"
  assumes "d \<noteq> []"
  shows "sort_key f d \<noteq> [] \<and> last (sort_key f d) \<in> set d \<and>
         (\<forall>x \<in> set d. f x \<le> f (last (sort_key f d)))"
proof -
  let ?s = "sort_key f d"
  have ne: "?s \<noteq> []" using assms by (metis length_sort list.size(3) length_0_conv)
  have mem: "last ?s \<in> set d" using last_in_set[OF ne] by simp
  have srt: "sorted (map f ?s)" by (rule sorted_sort_key)
  have "\<forall>x \<in> set d. f x \<le> f (last ?s)"
  proof
    fix x assume "x \<in> set d"
    then have "f x \<in> set (map f ?s)" by simp
    moreover have "last (map f ?s) = f (last ?s)" using ne by (simp add: last_map)
    ultimately show "f x \<le> f (last ?s)" using srt sorted_le_last by metis
  qed
  then show ?thesis using ne mem by simp
qed

lemma pop_latest_max:
  assumes "d \<noteq> []"
  shows "\<exists>k v. pop_latest d = Inr (k, v) \<and> (k, v) \<in> set d \<and> (\<forall>x \<in> set d. snd x \<le> v)"
proof -
  let ?s = "sort_key snd d"
  from last_sort_key_max [OF assms, of snd]
  have ne: "?s \<noteq> []" and mem: "last ?s \<in> set d"
    and mx: "\<forall>x \<in> set d. snd x \<le> snd (last ?s)"
    by simp_all
  have pl: "pop_latest d = Inr (last ?s)"
    using ne by (simp add: pop_latest_def split: list.splits)
  show ?thesis using pl mem mx by (cases "last ?s") auto
qed

lemma find_key_enumerate:
  "i < length vs \<Longrightarrow> vs ! i = p \<Longrightarrow> \<forall>j<i. vs ! j \<noteq> p \<Longrightarrow>
   find_key (enumerate n vs) p = Some (n + i)"
proof (induction vs arbitrary: n i)
  case Nil
  then show ?case by simp
next
  case (Cons v vs)
  show ?case
  proof (cases i)
    case 0
    with Cons.prems show ?thesis by simp
  next
    case (Suc k)
    with Cons.prems have "v \<noteq> p" by auto
    moreover have "find_key (enumerate (Suc n) vs) p = Some (Suc n + k)"
      using Cons.prems Suc by (intro Cons.IH) auto
    ultimately show ?thesis using Suc by simp
  qed
qed

text \<open>
  The loops that fill the dicts produce \<open>matched es\<close> for the list \<open>es\<close> of the matched
  entries, in the order of the listing.
\<close>

lemma collect_matched:
  "collect fm g names (matched es0) = Inr r \<Longrightarrow>
   \<exists>es. r = matched (es0 @ es) \<and> map fst es = filter (\<lambda>n. fm n \<noteq> None) names"
proof (induction names arbitrary: es0)
  case Nil
  then show ?case by simp
next
  case (Cons name rest)
  show ?case
  proof (cases "fm name")
    case None
    with Cons show ?thesis by simp
  next
    case (Some m)
    with Cons.prems obtain ver where gv: "group m g = Inr ver" by (cases "group m g") auto
    have step: "\<lparr>version_of = AList.update (keyid (matched es0)) ver (version_of (matched es0)),
                 name_of = AList.update (keyid (matched es0)) name (name_of (matched es0)),
                 keyid = Suc (keyid (matched es0))\<rparr> = matched (es0 @ [(name, ver)])"
      using update_enumerate [of 0 "map snd es0" ver] update_enumerate [of 0 "map fst es0" name]
      by (simp add: matched_def)
    from Cons.prems Some gv step have "collect fm g rest (matched (es0 @ [(name, ver)])) = Inr r"
      by simp
    from Cons.IH [OF this] obtain es where
      "r = matched ((es0 @ [(name, ver)]) @ es)" "map fst es = filter (\<lambda>n. fm n \<noteq> None) rest"
      by blast
    then show ?thesis using Some by (intro exI [of _ "(name, ver) # es"]) simp
  qed
qed

lemma no_matches_matched: "no_matches = matched []"
  by (simp add: no_matches_def matched_def)

text \<open>
  A preferred version whose first occurrence is not the first matched entry is chosen.
\<close>

lemma preferred_after_first:
  assumes "i < length es" "snd (es ! i) = preferred" "\<forall>j<i. snd (es ! j) \<noteq> preferred" "0 < i"
  shows "ftp_choose (matched es) preferred = Inr (fst (es ! i))"
    and "html_choose (matched es) preferred = Inr (fst (es ! i))"
proof -
  have "find_key (enumerate 0 (map snd es)) preferred = Some (0 + i)"
    using assms by (intro find_key_enumerate) auto
  moreover have "getitem (enumerate 0 (map fst es)) i = Inr (fst (es ! i))"
    using getitem_enumerate [of i "map fst es"] assms(1) by simp
  ultimately show "ftp_choose (matched es) preferred = Inr (fst (es ! i))"
    and "html_choose (matched es) preferred = Inr (fst (es ! i))"
    using assms(4) by (simp_all add: ftp_choose_def html_choose_def matched_def truthy_def)
qed

text \<open>
  C1. An entry whose version equals the preferred version is to be selected wherever it
  stands in the listing, the first position included. The first matched entry has the
  key 0, which is false in the conditions \<open>if foundkey\<close> and \<open>if not file_id\<close>: for the
  listing pkg-1.0.tar.gz, pkg-2.5.tar.gz and the preferred version 1.0, both functions
  select pkg-2.5.tar.gz, the entry of the greatest version string, and a call of
  ftp\_get or html\_get against a server that lists these two archives downloads
  pkg-2.5.tar.gz.
\<close>

theorem preferred_first_entry_not_selected:
  "ftp_choose (matched [(''pkg-1.0.tar.gz'', ''1.0''), (''pkg-2.5.tar.gz'', ''2.5'')]) ''1.0''
     = Inr ''pkg-2.5.tar.gz''
   \<and> html_choose (matched [(''pkg-1.0.tar.gz'', ''1.0''), (''pkg-2.5.tar.gz'', ''2.5'')]) ''1.0''
     = Inr ''pkg-2.5.tar.gz''
   \<and> trace (snd (ftp_get posix (\<lambda>server. gnu_site) (Some ''ftp.gnu.org'')
        (Some ''/pub/gnu/pkg/'') (Some ''pkg-([0-9.]+)[.]tar[.]gz'') 1 (Some ''dl/pkg.tar.gz'')
        ''1.0'' None 1 ''99'' start_world))
     = [FtpConnect ''ftp.gnu.org'', FtpLogin, FtpCwd ''/pub/gnu/pkg/'', FtpMlsd, FtpNlst,
        FtpRetr ''pkg-2.5.tar.gz'', FtpQuit]
   \<and> trace (snd (html_get posix releases (Some ''https://example.org/releases/'')
        (Some ''pkg-([0-9.]+)[.]tar[.]gz'') 1 (Some ''dl/pkg.tar.gz'') ''1.0'' start_world))
     = [HttpOpen ''https://example.org/releases/'',
        HttpRetrieve ''https://example.org/releases/pkg-2.5.tar.gz''
          ''/home/user/dl/pkg.tar.gz'']"
  by (simp add: ftp_get_def ftp_locate_def ftp_store_def ftp_connect_login_def ftp_cwd_def
      ftp_listing_def ftp_version_folder_def ftp_retrieve_def save_target_def html_get_def
      html_locate_def html_store_def bind_def ret_def raise_def lift_def emit_def exists_def
      makedirs_def write_file_def falsy_def str_of_def posix_def posix_join_def posix_abspath_def posix_normpath_def
  url_join_def url_netloc_of_def url_path_of_def url_scheme_of_def
      posix_basename_def posix_dirname_def pkg_matcher_def gnu_site_def releases_def
      start_world_def no_matches_def group_def ftp_choose_def html_choose_def truthy_def
      pop_latest_def getitem_def matched_def Let_def)

text \<open>
  C2. For a non-empty list of matched entries none of whose versions equals the preferred
  version, ftp\_get and html\_get select an entry of the listing whose version string is
  greatest in the order of strings: every version of the listing is less than or equal to
  it, character by character and not number by number.
\<close>

theorem latest_is_string_max:
  assumes "es \<noteq> []" and "preferred \<notin> snd ` set es"
  shows "\<exists>i<length es.
           ftp_choose (matched es) preferred = Inr (fst (es ! i)) \<and>
           html_choose (matched es) preferred = Inr (fst (es ! i)) \<and>
           (\<forall>e \<in> set es. snd e \<le> snd (es ! i))"
proof -
  let ?d = "enumerate 0 (map snd es)"
  have none: "find_key ?d preferred = None"
    using assms(2) by (force simp: find_key_None in_set_enumerate_eq)
  have "?d \<noteq> []" using assms(1) by (simp add: enumerate_eq_zip)
  from pop_latest_max [OF this] obtain k v where
    pl: "pop_latest ?d = Inr (k, v)" and mem: "(k, v) \<in> set ?d"
    and mx: "\<forall>x \<in> set ?d. snd x \<le> v"
    by blast
  from mem have k: "k < length es" and v: "v = snd (es ! k)"
    by (auto simp: in_set_enumerate_eq)
  have gi: "getitem (enumerate 0 (map fst es)) k = Inr (fst (es ! k))"
    using getitem_enumerate [of k "map fst es"] k by simp
  have "\<forall>e \<in> set es. snd e \<le> snd (es ! k)"
  proof
    fix e assume "e \<in> set es"
    then obtain j where "j < length es" "es ! j = e" by (auto simp: in_set_conv_nth)
    then have "(j, snd e) \<in> set ?d" by (auto simp: in_set_enumerate_eq)
    with mx v show "snd e \<le> snd (es ! k)" by auto
  qed
  moreover have "ftp_choose (matched es) preferred = Inr (fst (es ! k))"
    using none pl gi by (simp add: ftp_choose_def matched_def truthy_def)
  moreover have "html_choose (matched es) preferred = Inr (fst (es ! k))"
    using none pl gi by (simp add: html_choose_def matched_def truthy_def)
  ultimately show ?thesis using k by blast
qed

text \<open>
  The versions 7.1.0, 8.3.0 and 10.0.1 with the preferred version 99: the entry of 8.3.0
  is selected, not that of 10.0.1.
\<close>

theorem latest_is_string_max_witness:
  "[(''gcc-7.1.0.tar.gz'', ''7.1.0''), (''gcc-8.3.0.tar.gz'', ''8.3.0''),
    (''gcc-10.0.1.tar.gz'', ''10.0.1'')] \<noteq> []
   \<and> ''99'' \<notin> snd ` set [(''gcc-7.1.0.tar.gz'', ''7.1.0''), (''gcc-8.3.0.tar.gz'', ''8.3.0''),
                          (''gcc-10.0.1.tar.gz'', ''10.0.1'')]
   \<and> (\<exists>i<length [(''gcc-7.1.0.tar.gz'', ''7.1.0''), (''gcc-8.3.0.tar.gz'', ''8.3.0''),
                  (''gcc-10.0.1.tar.gz'', ''10.0.1'')].
         ftp_choose (matched [(''gcc-7.1.0.tar.gz'', ''7.1.0''), (''gcc-8.3.0.tar.gz'', ''8.3.0''),
                              (''gcc-10.0.1.tar.gz'', ''10.0.1'')]) ''99''
           = Inr (fst ([(''gcc-7.1.0.tar.gz'', ''7.1.0''), (''gcc-8.3.0.tar.gz'', ''8.3.0''),
                        (''gcc-10.0.1.tar.gz'', ''10.0.1'')] ! i)))
   \<and> ftp_choose (matched [(''gcc-7.1.0.tar.gz'', ''7.1.0''), (''gcc-8.3.0.tar.gz'', ''8.3.0''),
                          (''gcc-10.0.1.tar.gz'', ''10.0.1'')]) ''99''
       = Inr ''gcc-8.3.0.tar.gz''
   \<and> html_choose (matched [(''gcc-7.1.0.tar.gz'', ''7.1.0''), (''gcc-8.3.0.tar.gz'', ''8.3.0''),
                           (''gcc-10.0.1.tar.gz'', ''10.0.1'')]) ''99''
       = Inr ''gcc-8.3.0.tar.gz''"
proof -
  let ?es = "[(''gcc-7.1.0.tar.gz'', ''7.1.0''), (''gcc-8.3.0.tar.gz'', ''8.3.0''),
              (''gcc-10.0.1.tar.gz'', ''10.0.1'')]"
  have h1: "?es \<noteq> []" by simp
  have h2: "''99'' \<notin> snd ` set ?es" by simp
  from latest_is_string_max [OF h1 h2]
  have "\<exists>i<length ?es. ftp_choose (matched ?es) ''99'' = Inr (fst (?es ! i))" by blast
  moreover have "ftp_choose (matched ?es) ''99'' = Inr ''gcc-8.3.0.tar.gz''"
    by (simp add: ftp_choose_def matched_def truthy_def pop_latest_def getitem_def)
  moreover have "html_choose (matched ?es) ''99'' = Inr ''gcc-8.3.0.tar.gz''"
    by (simp add: html_choose_def matched_def truthy_def pop_latest_def getitem_def)
  ultimately show ?thesis using h1 h2 by blast
qed

section \<open>Properties of select\_mirror\<close>

lemma probe_handled:
  "\<forall>s \<in> set servers. net s port \<in> {Herror, Gaierror, Timeout} \<Longrightarrow>
   probe_servers net port servers b = Inr b"
  by (induction servers arbitrary: b) auto

text \<open>
  When every attempt ends in one of the three exceptions the loop handles, the result is
  \<open>(None, None)\<close>.
\<close>

lemma all_handled_no_mirror:
  assumes "\<forall>s \<in> set server_list. net s (port_of protocol) \<in> {Herror, Gaierror, Timeout}"
  shows "select_mirror net server_list priority protocol = Inr None"
  using probe_handled [of server_list net "port_of protocol" "[]"] assms
  by (simp add: select_mirror_def)

lemma probe_completes:
  "\<forall>s \<in> set servers. net s port \<noteq> Refused \<Longrightarrow>
   \<exists>b'. probe_servers net port servers b = Inr b'"
proof (induction servers arbitrary: b)
  case Nil
  then show ?case by simp
next
  case (Cons s servers)
  then show ?case by (cases "net s port") auto
qed

lemma probe_keys:
  "probe_servers net port servers b = Inr b' \<Longrightarrow>
   set (map fst b') = set (map fst b) \<union> {s \<in> set servers. \<exists>t. net s port = Connected t}"
proof (induction servers arbitrary: b)
  case Nil
  then show ?case by simp
next
  case (Cons s servers)
  show ?case
  proof (cases "net s port")
    case (Connected t)
    with Cons.prems have "probe_servers net port servers (AList.update s t b) = Inr b'" by simp
    from Cons.IH [OF this] show ?thesis using Connected
      by (auto simp: AList.update_keys split: if_splits)
  next
    case Refused
    with Cons.prems show ?thesis by simp
  qed (use Cons in auto)
qed

text \<open>
  When the loop over the servers completes with a benchmark that is not empty, a rank
  beyond the number of its hosts gives a host of the greatest latency, and a rank within
  range gives the host at that rank in ascending order of latency.
\<close>

lemma rank_clamped:
  assumes "probe_servers net (port_of protocol) server_list [] = Inr benchmark"
    and "benchmark \<noteq> []"
  shows "int (length benchmark) < priority \<Longrightarrow>
           \<exists>h t. select_mirror net server_list priority protocol = Inr (Some (h, t)) \<and>
             (h, t) \<in> set benchmark \<and> (\<forall>x \<in> set benchmark. snd x \<le> t)"
    and "1 \<le> priority \<Longrightarrow> priority \<le> int (length benchmark) \<Longrightarrow>
           select_mirror net server_list priority protocol =
             Inr (Some (sort_key snd benchmark ! nat (priority - 1)))"
proof -
  let ?s = "sort_key snd benchmark"
  have len: "length ?s = length benchmark" by simp
  have pos: "0 < length benchmark" using assms(2) by simp
  {
    assume big: "int (length benchmark) < priority"
    have idx: "nat (int (length benchmark) - 1) = length benchmark - 1" by simp
    have sel: "select_mirror net server_list priority protocol =
        Inr (Some (?s ! (length benchmark - 1)))"
      using assms(1) pos big by (simp add: select_mirror_def Let_def min_def max_def idx)
    from last_sort_key_max [OF assms(2), of snd]
    have ne: "?s \<noteq> []" and mem: "last ?s \<in> set benchmark"
      and mx: "\<forall>x \<in> set benchmark. snd x \<le> snd (last ?s)" by simp_all
    have nth: "?s ! (length benchmark - 1) = last ?s" using ne len by (simp add: last_conv_nth)
    obtain h t where ht: "last ?s = (h, t)" by (cases "last ?s")
    have "select_mirror net server_list priority protocol = Inr (Some (h, t))"
      using sel nth ht by simp
    moreover have "(h, t) \<in> set benchmark" using mem ht by simp
    moreover have "\<forall>x \<in> set benchmark. snd x \<le> t" using mx ht by simp
    ultimately
    show "\<exists>h t. select_mirror net server_list priority protocol = Inr (Some (h, t)) \<and>
             (h, t) \<in> set benchmark \<and> (\<forall>x \<in> set benchmark. snd x \<le> t)"
      by blast
  }
  {
    assume "1 \<le> priority" "priority \<le> int (length benchmark)"
    then show "select_mirror net server_list priority protocol =
             Inr (Some (sort_key snd benchmark ! nat (priority - 1)))"
      using assms(1) pos by (simp add: select_mirror_def Let_def min_def max_def)
  }
qed

lemma probe_distinct:
  "probe_servers net port servers b = Inr b' \<Longrightarrow> distinct (map fst b) \<Longrightarrow>
   distinct (map fst b')"
proof (induction servers arbitrary: b)
  case Nil
  then show ?case by simp
next
  case (Cons s servers)
  then show ?case
    by (cases "net s port") (auto simp: AList.distinct_update)
qed

lemma set_update_subset: "set (AList.update k v al) \<subseteq> insert (k, v) (set al)"
  by (induction al) auto

lemma probe_values:
  "probe_servers net port servers b = Inr b' \<Longrightarrow>
   \<forall>(h, t) \<in> set b. net h port = Connected t \<Longrightarrow>
   \<forall>(h, t) \<in> set b'. net h port = Connected t"
proof (induction servers arbitrary: b)
  case Nil
  then show ?case by simp
next
  case (Cons s servers)
  show ?case
  proof (cases "net s port")
    case (Connected t)
    have "\<forall>(h, t') \<in> set (AList.update s t b). net h port = Connected t'"
      using Cons.prems(2) Connected set_update_subset [of s t b] by auto
    with Cons.IH [of "AList.update s t b"] Cons.prems(1) Connected show ?thesis by simp
  next
    case Refused
    with Cons.prems show ?thesis by simp
  qed (use Cons in auto)
qed

text \<open>
  C3. When the connection attempt to every host of the list fails, select\_mirror is to
  return \<open>(None, None)\<close> and raise nothing. A refused connection raises
  ConnectionRefusedError, which is none of \<open>socket.herror\<close>, \<open>socket.gaierror\<close> and
  \<open>socket.timeout\<close>: with one host that refuses the connection the exception leaves
  select\_mirror.
\<close>

theorem refused_host_raises:
  "select_mirror (\<lambda>host port. Refused) [''ftp.gnu.org''] 1 ''FTP''
     = Inl ConnectionRefusedError"
  by (simp add: select_mirror_def)

text \<open>
  When every attempt that does not connect ends in one of the exceptions the loop
  handles, and at least one host connects, the benchmark holds exactly the hosts that
  connected, each once and with its latency; a rank greater than their number gives a
  host of the greatest latency among them, and a rank from 1 to their number gives the
  host at that rank in the benchmark sorted by ascending latency.
\<close>

lemma rank_clamped_when_handled:
  assumes handled: "\<forall>s \<in> set server_list. net s (port_of protocol) \<noteq> Refused"
    and one: "\<exists>s \<in> set server_list. \<exists>t. net s (port_of protocol) = Connected t"
  shows "\<exists>benchmark.
           probe_servers net (port_of protocol) server_list [] = Inr benchmark \<and>
           distinct (map fst benchmark) \<and>
           set (map fst benchmark)
             = {s \<in> set server_list. \<exists>t. net s (port_of protocol) = Connected t} \<and>
           (\<forall>(h, t) \<in> set benchmark. net h (port_of protocol) = Connected t) \<and>
           (int (length benchmark) < priority \<longrightarrow>
              (\<exists>h t. select_mirror net server_list priority protocol = Inr (Some (h, t)) \<and>
                 (h, t) \<in> set benchmark \<and> (\<forall>x \<in> set benchmark. snd x \<le> t))) \<and>
           (1 \<le> priority \<and> priority \<le> int (length benchmark) \<longrightarrow>
              select_mirror net server_list priority protocol
                = Inr (Some (sort_key snd benchmark ! nat (priority - 1))) \<and>
              sorted (map snd (sort_key snd benchmark)))"
proof -
  from probe_completes [of server_list net "port_of protocol" "[]"] handled obtain benchmark
    where b: "probe_servers net (port_of protocol) server_list [] = Inr benchmark" by blast
  have d: "distinct (map fst benchmark)" using probe_distinct [OF b] by simp
  have k: "set (map fst benchmark)
             = {s \<in> set server_list. \<exists>t. net s (port_of protocol) = Connected t}"
    using probe_keys [OF b] by simp
  have v: "\<forall>(h, t) \<in> set benchmark. net h (port_of protocol) = Connected t"
    using probe_values [OF b] by simp
  from one k have ne: "benchmark \<noteq> []" by auto
  note r = rank_clamped [OF b ne, of priority]
  have s: "sorted (map snd (sort_key snd benchmark))" by (rule sorted_sort_key)
  from b d k v r s show ?thesis by blast
qed

text \<open>
  C4. With at least one host that connects, select\_mirror is to return the slowest such
  host for a rank beyond their number, and the host at the rank for a rank within range,
  rather than fail. With a first host that connects and a second host that refuses the
  connection, the ConnectionRefusedError of the second attempt leaves select\_mirror
  before the ranking: no host is returned for the rank 3, beyond the one connected
  host, nor for the rank 1, within range.
\<close>

theorem rank_with_refused_host_raises:
  "select_mirror (\<lambda>host port. if host = ''gcc.gnu.org'' then Connected (1 / 10) else Refused)
     [''gcc.gnu.org'', ''ftp.irisa.fr''] 3 ''FTP''
     = Inl ConnectionRefusedError
   \<and> select_mirror (\<lambda>host port. if host = ''gcc.gnu.org'' then Connected (1 / 10) else Refused)
     [''gcc.gnu.org'', ''ftp.irisa.fr''] 1 ''FTP''
     = Inl ConnectionRefusedError"
  by (simp add: select_mirror_def)

section \<open>Properties of untar\<close>

lemma md5_update_loop_all: "md5_update_loop f md5 = md5 @ f"
proof (induction f md5 rule: md5_update_loop.induct)
  case (1 f md5)
  show ?case
  proof (cases "take 128 f = []")
    case True
    then have "f = []" by (cases f) auto
    then show ?thesis by (subst md5_update_loop.simps) simp
  next
    case False
    with "1" have "md5_update_loop (drop 128 f) (md5 @ take 128 f) = (md5 @ take 128 f) @ drop 128 f"
      by simp
    with False show ?thesis by (subst md5_update_loop.simps) (simp add: Let_def)
  qed
qed

lemma str_in_iff: "str_in a b \<longleftrightarrow> (\<exists>ps ss. b = ps @ a @ ss)"
proof (induction b)
  case Nil
  then show ?case by auto
next
  case (Cons c b)
  show ?case
  proof
    assume "str_in a (c # b)"
    then consider "take (length a) (c # b) = a" | "str_in a b" by auto
    then show "\<exists>ps ss. c # b = ps @ a @ ss"
    proof cases
      case 1
      then have "c # b = [] @ a @ drop (length a) (c # b)"
        by (metis append_Nil append_take_drop_id)
      then show ?thesis by blast
    next
      case 2
      with Cons obtain ps ss where "b = ps @ a @ ss" by blast
      then have "c # b = (c # ps) @ a @ ss" by simp
      then show ?thesis by blast
    qed
  next
    assume "\<exists>ps ss. c # b = ps @ a @ ss"
    then obtain ps ss where eq: "c # b = ps @ a @ ss" by blast
    show "str_in a (c # b)"
    proof (cases ps)
      case Nil
      with eq have "take (length a) (c # b) = a" by simp
      then show ?thesis by simp
    next
      case (Cons p ps')
      with eq have "b = ps' @ a @ ss" by simp
      with Cons.IH show ?thesis by auto
    qed
  qed
qed

lemma str_in_same_length: "length a = length b \<Longrightarrow> str_in a b \<longleftrightarrow> a = b"
proof
  assume len: "length a = length b" and "str_in a b"
  then obtain ps ss where eq: "b = ps @ a @ ss" by (auto simp: str_in_iff)
  with len have "ps = []" "ss = []" by auto
  with eq show "a = b" by simp
next
  assume "a = b"
  then have "b = [] @ a @ []" by simp
  then show "str_in a b" unfolding str_in_iff by blast
qed

lemmas untar_defs = untar_def extract_and_record_def hash_file_md5_def bind_def ret_def raise_def
  exists_def makedirs_def read_file_def write_file_def emit_def md5_update_loop_all Let_def

lemma made_simps [simp]:
  "trace (made d w) = trace w"
  "cwd (made d w) = cwd w"
  "nodes (made d w) d \<noteq> None"
  "p \<noteq> d \<Longrightarrow> nodes (made d w) p = nodes w p"
  "nodes w p \<noteq> None \<Longrightarrow> nodes (made d w) p = nodes w p"
  "nodes w d \<noteq> None \<Longrightarrow> made d w = w"
  by (auto simp: made_def)

lemma extract_and_record_result:
  "extract_and_record t src dst md5f (Some h) w0 =
     (case t of
        CannotOpen \<Rightarrow> (Inl ReadError, w0\<lparr>trace := trace w0 @ [TarOpen src]\<rparr>)
      | RaisesOther \<Rightarrow>
          (Inl OtherError, w0\<lparr>trace := trace w0 @ [TarOpen src, TarExtractAll src dst]\<rparr>)
      | Extracts \<Rightarrow>
          (if nodes w0 md5f = Some Dir
           then (Inl IsADirectoryError,
                 w0\<lparr>trace := trace w0 @ [TarOpen src, TarExtractAll src dst]\<rparr>)
           else (Inr (Some dst),
                 w0\<lparr>trace := trace w0 @ [TarOpen src, TarExtractAll src dst],
                    nodes := (nodes w0)(md5f \<mapsto> File h)\<rparr>))
      | _ \<Rightarrow> (Inr (Some dst), w0\<lparr>trace := trace w0 @ [TarOpen src, TarExtractAll src dst]\<rparr>))"
  by (cases t)
     (auto simp: extract_and_record_def bind_def ret_def raise_def emit_def write_file_def
       split: option.splits node.splits)

lemma untar_missing: "nodes w src = None \<Longrightarrow> untar hexdigest t src dst w = (Inr None, w)"
  by (simp add: untar_def bind_def ret_def exists_def)

lemma untar_directory:
  "nodes w src = Some Dir \<Longrightarrow>
   untar hexdigest t src dst w = (Inl IsADirectoryError, made dst w)"
  by (auto simp: untar_def hash_file_md5_def bind_def ret_def exists_def makedirs_def
      read_file_def made_def Let_def)

lemma untar_file:
  assumes "nodes w src = Some (File b)"
  shows "untar hexdigest t src dst w =
     (case nodes (made dst w) (src @ ''.md5'') of
        Some Dir \<Rightarrow> (Inl IsADirectoryError, made dst w)
      | Some (File old) \<Rightarrow>
          if str_in (hexdigest b) old then (Inr (Some dst), made dst w)
          else extract_and_record t src dst (src @ ''.md5'') (Some (hexdigest b)) (made dst w)
      | None \<Rightarrow>
          extract_and_record t src dst (src @ ''.md5'') (Some (hexdigest b)) (made dst w))"
  using assms
  by (auto simp: untar_def hash_file_md5_def bind_def ret_def raise_def exists_def makedirs_def
      read_file_def made_def Let_def md5_update_loop_all split: option.splits node.splits)


lemma untar_retry:
  assumes "nodes w src = Some (File b)"
    and "nodes (made dst w) (src @ ''.md5'') \<noteq> Some Dir"
    and "\<forall>old. nodes (made dst w) (src @ ''.md5'') = Some (File old) \<longrightarrow> \<not> str_in (hexdigest b) old"
    and "w1 = (made dst w)\<lparr>trace := tr\<rparr>"
  shows "trace (snd (untar hexdigest t' src dst w1))
           = tr @ TarOpen src # (if t' = CannotOpen then [] else [TarExtractAll src dst])"
proof -
  have f1: "nodes w1 src = Some (File b)" using assms(1,4) by (auto simp: made_def)
  have m1: "made dst w1 = w1" using assms(4) by (auto simp: made_def)
  have s1: "nodes w1 (src @ ''.md5'') = nodes (made dst w) (src @ ''.md5'')"
    using assms(4) by simp
  have tr: "trace w1 = tr" using assms(4) by simp
  show ?thesis
    unfolding untar_file [OF f1] m1 s1 extract_and_record_result
    using assms(2,3) tr
    by (cases t') (auto split: option.splits node.splits)
qed

lemmas run_defs = ftp_get_def ftp_locate_def ftp_store_def ftp_connect_login_def ftp_cwd_def
  ftp_listing_def ftp_version_folder_def ftp_retrieve_def save_target_def html_get_def
  html_locate_def html_store_def bind_def ret_def raise_def lift_def emit_def exists_def
  makedirs_def write_file_def read_file_def falsy_def str_of_def posix_def posix_join_def posix_abspath_def posix_normpath_def
  url_join_def url_netloc_of_def url_path_of_def url_scheme_of_def
  posix_basename_def posix_dirname_def pkg_matcher_def gnu_site_def releases_def start_world_def
  no_matches_def group_def ftp_choose_def html_choose_def truthy_def pop_latest_def
  getitem_def Let_def untar_def extract_and_record_def hash_file_md5_def hex32_def
  md5_update_loop_all set_env_def restore_env_def environ_get_def environ_set_def getcwd_def
  chdir_def LOCATIONS_def

text \<open>
  C6. Let a first run of untar unpack an archive, the extraction succeeding. A second run
  on the archive with the same bytes returns the destination and does nothing else:
  it neither opens nor extracts the archive and changes no file. A second run after the
  bytes of the archive have changed to bytes of another digest does not skip: it opens
  the archive again and, unless the archive cannot be opened, extracts it. The digests
  are those of MD5 in hexadecimal, 32 characters long.
\<close>

theorem untar_twice:
  assumes len: "\<forall>m. length (hexdigest m) = 32"
    and isfile: "nodes w source_archive = Some (File bytes)"
    and run1: "untar hexdigest Extracts source_archive destination_folder w = (r1, w1)"
    and unpacked: "trace w1 = trace w @ [TarOpen source_archive,
                     TarExtractAll source_archive destination_folder]"
  shows "r1 = Inr (Some destination_folder)
    \<and> (\<forall>t2. untar hexdigest t2 source_archive destination_folder w1
              = (Inr (Some destination_folder), w1))
    \<and> (\<forall>t2 bytes'. hexdigest bytes' \<noteq> hexdigest bytes \<longrightarrow>
          trace (snd (untar hexdigest t2 source_archive destination_folder
                        (w1\<lparr>nodes := (nodes w1)(source_archive \<mapsto> File bytes')\<rparr>)))
          = trace w1 @ TarOpen source_archive #
              (if t2 = CannotOpen then []
               else [TarExtractAll source_archive destination_folder]))"
proof -
  have same: "str_in (hexdigest bytes) (hexdigest bytes)"
    by (simp add: str_in_same_length)
  have diff: "\<And>b'. hexdigest b' \<noteq> hexdigest bytes \<Longrightarrow> \<not> str_in (hexdigest b') (hexdigest bytes)"
    using len by (simp add: str_in_same_length)
  have w1: "r1 = Inr (Some destination_folder) \<and>
        nodes w1 (source_archive @ ''.md5'') = Some (File (hexdigest bytes)) \<and>
        nodes w1 source_archive = Some (File bytes) \<and> nodes w1 destination_folder \<noteq> None"
    using run1 unpacked isfile
    by (auto simp: untar_defs split: if_splits option.splits node.splits)
  have a: "\<forall>t2. untar hexdigest t2 source_archive destination_folder w1
              = (Inr (Some destination_folder), w1)"
    using w1 same by (auto simp: untar_defs split: if_splits option.splits node.splits)
  have b: "\<forall>t2 bytes'. hexdigest bytes' \<noteq> hexdigest bytes \<longrightarrow>
          trace (snd (untar hexdigest t2 source_archive destination_folder
                        (w1\<lparr>nodes := (nodes w1)(source_archive \<mapsto> File bytes')\<rparr>)))
          = trace w1 @ TarOpen source_archive #
              (if t2 = CannotOpen then []
               else [TarExtractAll source_archive destination_folder])"
    using w1 diff by (auto simp: untar_defs split: if_splits option.splits node.splits)
  from w1 a b show ?thesis by blast
qed

text \<open>
  An archive of the starting world, unpacked by a first run; a second run in which extraction
  would fail is not reached; the archive replaced by other bytes is unpacked again.
\<close>

theorem untar_twice_witness:
  "(\<forall>m. length (hex32 m) = 32)
   \<and> nodes start_world ''dl/gcc.tar.gz'' = Some (File ''tarball'')
   \<and> trace (snd (untar hex32 Extracts ''dl/gcc.tar.gz'' ''pkgs/'' start_world))
       = trace start_world @ [TarOpen ''dl/gcc.tar.gz'', TarExtractAll ''dl/gcc.tar.gz'' ''pkgs/'']
   \<and> untar hex32 RaisesIOError ''dl/gcc.tar.gz'' ''pkgs/''
         (snd (untar hex32 Extracts ''dl/gcc.tar.gz'' ''pkgs/'' start_world))
       = (Inr (Some ''pkgs/''), snd (untar hex32 Extracts ''dl/gcc.tar.gz'' ''pkgs/'' start_world))
   \<and> hex32 ''another tarball'' \<noteq> hex32 ''tarball''
   \<and> trace (snd (untar hex32 Extracts ''dl/gcc.tar.gz'' ''pkgs/''
         ((snd (untar hex32 Extracts ''dl/gcc.tar.gz'' ''pkgs/'' start_world))
            \<lparr>nodes := (nodes (snd (untar hex32 Extracts ''dl/gcc.tar.gz'' ''pkgs/'' start_world)))
                        (''dl/gcc.tar.gz'' \<mapsto> File ''another tarball'')\<rparr>)))
       = trace (snd (untar hex32 Extracts ''dl/gcc.tar.gz'' ''pkgs/'' start_world))
         @ [TarOpen ''dl/gcc.tar.gz'', TarExtractAll ''dl/gcc.tar.gz'' ''pkgs/'']"
proof -
  let ?w1 = "snd (untar hex32 Extracts ''dl/gcc.tar.gz'' ''pkgs/'' start_world)"
  have len: "\<forall>m. length (hex32 m) = 32" by (simp add: hex32_def min_def)
  have isfile: "nodes start_world ''dl/gcc.tar.gz'' = Some (File ''tarball'')"
    by (simp add: start_world_def)
  have run1: "untar hex32 Extracts ''dl/gcc.tar.gz'' ''pkgs/'' start_world
              = (fst (untar hex32 Extracts ''dl/gcc.tar.gz'' ''pkgs/'' start_world), ?w1)"
    by simp
  have unpacked: "trace ?w1 = trace start_world
      @ [TarOpen ''dl/gcc.tar.gz'', TarExtractAll ''dl/gcc.tar.gz'' ''pkgs/'']"
    by (simp add: run_defs)
  have differ: "hex32 ''another tarball'' \<noteq> hex32 ''tarball''" by (simp add: hex32_def)
  note t = untar_twice [OF len isfile run1 unpacked]
  from t have a: "untar hex32 RaisesIOError ''dl/gcc.tar.gz'' ''pkgs/'' ?w1
      = (Inr (Some ''pkgs/''), ?w1)" by blast
  from t differ have b: "trace (snd (untar hex32 Extracts ''dl/gcc.tar.gz'' ''pkgs/''
         (?w1\<lparr>nodes := (nodes ?w1)(''dl/gcc.tar.gz'' \<mapsto> File ''another tarball'')\<rparr>)))
       = trace ?w1 @ TarOpen ''dl/gcc.tar.gz'' #
           (if Extracts = CannotOpen then []
            else [TarExtractAll ''dl/gcc.tar.gz'' ''pkgs/''])" by blast
  from len isfile unpacked a differ b show ?thesis by simp
qed

text \<open>
  C7. untar writes the digest to the sidecar file only in a run whose extraction
  succeeded: whenever a run leaves the sidecar a file that it was not before, the
  extraction of that run was called and completed, and the sidecar holds the digest of
  the archive. A run that reaches the extraction and in which it fails, or in which the
  archive cannot be opened, leaves the sidecar as it was, and every later run on the
  world it leaves attempts the extraction again.
\<close>

theorem hash_persisted_only_after_extraction:
  assumes run: "untar hexdigest t source_archive destination_folder w = (r, w1)"
  shows "(\<forall>h. nodes w1 (source_archive @ ''.md5'') = Some (File h) \<and>
              nodes w (source_archive @ ''.md5'') \<noteq> Some (File h) \<longrightarrow>
            t = Extracts \<and>
            trace w1 = trace w @ [TarOpen source_archive,
                         TarExtractAll source_archive destination_folder] \<and>
            (\<exists>bytes. nodes w source_archive = Some (File bytes) \<and> h = hexdigest bytes))
    \<and> (t \<noteq> Extracts \<and> trace w1 \<noteq> trace w \<longrightarrow>
          nodes w1 (source_archive @ ''.md5'') = nodes w (source_archive @ ''.md5'') \<and>
          (\<forall>t'. trace (snd (untar hexdigest t' source_archive destination_folder w1))
                = trace w1 @ TarOpen source_archive #
                    (if t' = CannotOpen then []
                     else [TarExtractAll source_archive destination_folder])))"
proof (cases "nodes w source_archive")
  case None
  with run show ?thesis by (simp add: untar_missing)
next
  case (Some n)
  show ?thesis
  proof (cases n)
    case Dir
    with Some run have "w1 = made destination_folder w" by (simp add: untar_directory)
    then show ?thesis by (auto simp: made_def split: if_splits)
  next
    case (File b)
    let ?m = "made destination_folder w"
    let ?f = "source_archive @ ''.md5''"
    from Some File have isfile: "nodes w source_archive = Some (File b)" by simp
    note u = run [unfolded untar_file [OF isfile]]
    show ?thesis
    proof (cases "nodes ?m ?f = Some Dir \<or>
                  (\<exists>old. nodes ?m ?f = Some (File old) \<and> str_in (hexdigest b) old)")
      case True
      with u have "w1 = ?m" by (auto split: option.splits node.splits if_splits)
      then show ?thesis by (auto simp: made_def split: if_splits)
    next
      case False
      then have nd: "nodes ?m ?f \<noteq> Some Dir"
        and ns: "\<forall>old. nodes ?m ?f = Some (File old) \<longrightarrow> \<not> str_in (hexdigest b) old"
        by auto
      from u nd ns have ex: "extract_and_record t source_archive destination_folder ?f
                        (Some (hexdigest b)) ?m = (r, w1)"
        by (auto split: option.splits node.splits if_splits)
      show ?thesis
      proof (cases "t = Extracts")
        case True
        with ex nd isfile show ?thesis
          by (auto simp: extract_and_record_result)
      next
        case False
        with ex have w1: "w1 = ?m\<lparr>trace := trace w @
            TarOpen source_archive # (if t = CannotOpen then []
               else [TarExtractAll source_archive destination_folder])\<rparr>"
          by (cases t) (auto simp: extract_and_record_result)
        have same: "nodes w1 ?f = nodes w ?f"
          using w1 nd by (auto simp: made_def split: if_splits)
        have tr1: "trace w1 = trace w @
            TarOpen source_archive # (if t = CannotOpen then []
               else [TarExtractAll source_archive destination_folder])"
          using w1 by simp
        have retry: "\<forall>t'. trace (snd (untar hexdigest t' source_archive destination_folder w1))
                = trace w1 @ TarOpen source_archive #
                    (if t' = CannotOpen then []
                     else [TarExtractAll source_archive destination_folder])"
          using untar_retry [of w source_archive b destination_folder hexdigest w1
              "trace w @ TarOpen source_archive # (if t = CannotOpen then []
                 else [TarExtractAll source_archive destination_folder])"]
            isfile nd ns w1 tr1 by simp
        from same retry False show ?thesis
          using same by (auto simp: made_def split: if_splits)
      qed
    qed
  qed
qed

text \<open>
  A run in which extraction raises an IOError leaves no sidecar and the next run
  extracts again; a run in which extraction succeeds writes the digest.
\<close>

theorem hash_persisted_only_after_extraction_witness:
  "RaisesIOError \<noteq> Extracts
   \<and> trace (snd (untar hex32 RaisesIOError ''dl/gcc.tar.gz'' ''pkgs/'' start_world)) \<noteq> trace start_world
   \<and> nodes (snd (untar hex32 RaisesIOError ''dl/gcc.tar.gz'' ''pkgs/'' start_world))
        ''dl/gcc.tar.gz.md5'' = nodes start_world ''dl/gcc.tar.gz.md5''
   \<and> trace (snd (untar hex32 Extracts ''dl/gcc.tar.gz'' ''pkgs/''
         (snd (untar hex32 RaisesIOError ''dl/gcc.tar.gz'' ''pkgs/'' start_world))))
       = trace (snd (untar hex32 RaisesIOError ''dl/gcc.tar.gz'' ''pkgs/'' start_world))
         @ [TarOpen ''dl/gcc.tar.gz'', TarExtractAll ''dl/gcc.tar.gz'' ''pkgs/'']
   \<and> nodes (snd (untar hex32 Extracts ''dl/gcc.tar.gz'' ''pkgs/'' start_world))
        ''dl/gcc.tar.gz.md5'' = Some (File (hex32 ''tarball''))
   \<and> nodes start_world ''dl/gcc.tar.gz.md5'' \<noteq> Some (File (hex32 ''tarball''))
   \<and> trace (snd (untar hex32 Extracts ''dl/gcc.tar.gz'' ''pkgs/'' start_world))
       = trace start_world @ [TarOpen ''dl/gcc.tar.gz'', TarExtractAll ''dl/gcc.tar.gz'' ''pkgs/'']"
proof -
  let ?bad = "untar hex32 RaisesIOError ''dl/gcc.tar.gz'' ''pkgs/'' start_world"
  let ?good = "untar hex32 Extracts ''dl/gcc.tar.gz'' ''pkgs/'' start_world"
  have h1: "RaisesIOError \<noteq> Extracts" by simp
  have h2: "trace (snd ?bad) \<noteq> trace start_world" by (simp add: run_defs)
  have h3: "nodes (snd ?good) (''dl/gcc.tar.gz'' @ ''.md5'') = Some (File (hex32 ''tarball''))"
    by (simp add: run_defs)
  have h4: "nodes start_world (''dl/gcc.tar.gz'' @ ''.md5'') \<noteq> Some (File (hex32 ''tarball''))"
    by (simp add: start_world_def)
  have bad: "?bad = (fst ?bad, snd ?bad)" by simp
  have good: "?good = (fst ?good, snd ?good)" by simp
  from hash_persisted_only_after_extraction [OF bad] h1 h2
  have c1: "nodes (snd ?bad) (''dl/gcc.tar.gz'' @ ''.md5'')
              = nodes start_world (''dl/gcc.tar.gz'' @ ''.md5'')"
    and c2: "trace (snd (untar hex32 Extracts ''dl/gcc.tar.gz'' ''pkgs/'' (snd ?bad)))
       = trace (snd ?bad) @ TarOpen ''dl/gcc.tar.gz'' #
           (if Extracts = CannotOpen then [] else [TarExtractAll ''dl/gcc.tar.gz'' ''pkgs/''])"
    by blast+
  from hash_persisted_only_after_extraction [OF good] h3 h4
  have c3: "trace (snd ?good)
      = trace start_world @ [TarOpen ''dl/gcc.tar.gz'', TarExtractAll ''dl/gcc.tar.gz'' ''pkgs/'']"
    by blast
  from h1 h2 h3 h4 c1 c2 c3 show ?thesis by simp
qed

text \<open>
  C8. untar is to return \<open>None\<close>, and never the destination path, whenever extraction
  does not succeed, and to let no exception leave it. When \<open>extractall\<close> raises an
  IOError, untar handles it and returns the destination folder; when the archive cannot
  be opened, the \<open>tarfile.ReadError\<close> of \<open>tarfile.open\<close> leaves untar.
\<close>

theorem failed_extraction_returns_destination:
  "untar hex32 RaisesIOError ''dl/gcc.tar.gz'' ''pkgs/'' start_world
   = (Inr (Some ''pkgs/''),
      start_world\<lparr>nodes := (nodes start_world)(''pkgs/'' \<mapsto> Dir),
              trace := [TarOpen ''dl/gcc.tar.gz'',
                        TarExtractAll ''dl/gcc.tar.gz'' ''pkgs/'']\<rparr>)
   \<and> fst (untar hex32 CannotOpen ''dl/gcc.tar.gz'' ''pkgs/'' start_world) = Inl ReadError"
  by (simp add: run_defs)

section \<open>Properties of ftp\_get and html\_get\<close>

lemma only_emits_ret [intro!]: "only_emits P (ret x)"
  unfolding only_emits_def ret_def by (intro exI [of _ "Inr x"] exI [of _ "[]"]) simp

lemma only_emits_raise [intro!]: "only_emits P (raise e)"
  unfolding only_emits_def raise_def by (intro exI [of _ "Inl e"] exI [of _ "[]"]) simp

lemma only_emits_lift [intro!]: "only_emits P (lift r)"
  unfolding only_emits_def lift_def by (intro exI [of _ r] exI [of _ "[]"]) simp

lemma only_emits_emit [intro!]: "P e \<Longrightarrow> only_emits P (emit e)"
  unfolding only_emits_def emit_def by (intro exI [of _ "Inr ()"] exI [of _ "[e]"]) simp

lemma only_emits_bind [intro!]:
  assumes "only_emits P m" and "\<And>x. only_emits P (f x)"
  shows "only_emits P (bind m f)"
proof -
  from assms(1) obtain r tr where tr: "list_all P tr"
    and m: "\<And>w. m w = (r, w\<lparr>trace := trace w @ tr\<rparr>)"
    unfolding only_emits_def by blast
  show ?thesis
  proof (cases r)
    case (Inl e)
    then have "\<forall>w. bind m f w = (Inl e, w\<lparr>trace := trace w @ tr\<rparr>)"
      by (simp add: bind_def m)
    with tr show ?thesis unfolding only_emits_def by blast
  next
    case (Inr x)
    from assms(2) [of x] obtain r' tr' where tr': "list_all P tr'"
      and f: "\<And>w. f x w = (r', w\<lparr>trace := trace w @ tr'\<rparr>)"
      unfolding only_emits_def by blast
    have "\<forall>w. bind m f w = (r', w\<lparr>trace := trace w @ (tr @ tr')\<rparr>)"
      by (simp add: bind_def m Inr f)
    moreover have "list_all P (tr @ tr')" using tr tr' by simp
    ultimately show ?thesis unfolding only_emits_def by blast
  qed
qed

lemma listing_event_simps [simp]:
  "listing_event (FtpConnect s)" "listing_event FtpLogin" "listing_event (FtpCwd d)"
  "listing_event FtpMlsd" "listing_event FtpNlst" "listing_event FtpQuit"
  "listing_event (HttpOpen u)" "\<not> listing_event (FtpRetr n)" "\<not> listing_event (HttpRetrieve u p)"
  by (simp_all add: listing_event_def)

lemma ftp_connect_login_emits: "only_emits listing_event (ftp_connect_login site server)"
  unfolding ftp_connect_login_def by (cases "login site") auto

lemma ftp_cwd_emits: "only_emits listing_event (ftp_cwd site dirs d)"
  unfolding ftp_cwd_def by auto

lemma ftp_listing_emits: "only_emits listing_event (ftp_listing site dirs fm g kind)"
  unfolding ftp_listing_def by (auto split: option.splits)

lemma ftp_version_folder_emits:
  "only_emits listing_event (ftp_version_folder L site dirs folder folder_re g pv)"
  unfolding ftp_version_folder_def
  by (auto split: option.splits intro!: ftp_listing_emits ftp_cwd_emits)

lemma ftp_locate_emits:
  "only_emits listing_event (ftp_locate L site server folder filename_re g pv folder_re fg pfv)"
  unfolding ftp_locate_def
  by (auto split: option.splits
      intro!: ftp_connect_login_emits ftp_listing_emits ftp_cwd_emits ftp_version_folder_emits)

lemma html_locate_emits:
  "only_emits listing_event (html_locate L W url filename_re g pv)"
  unfolding html_locate_def by (auto split: option.splits)

lemma save_target_result:
  "save_target L save_path final_archive w =
     (Inr (target_path L save_path final_archive (cwd w)),
      (if falsy save_path \<or> dirname L (str_of save_path) = [] then w
       else made (dirname L (str_of save_path)) w))"
  by (auto simp: save_target_def target_path_def bind_def ret_def exists_def makedirs_def
      made_def Let_def)

lemma save_target_again:
  assumes "save_target L save_path final_archive w = (r, w')"
  shows "save_target L save_path final_archive (w'\<lparr>trace := tr\<rparr>) = (r, w'\<lparr>trace := tr\<rparr>)"
    and "save_target L save_path final_archive
           (w'\<lparr>nodes := (nodes w')(q \<mapsto> n), trace := tr\<rparr>)
         = (r, w'\<lparr>nodes := (nodes w')(q \<mapsto> n), trace := tr\<rparr>)"
  using assms unfolding save_target_result
  by (auto simp: made_def split: if_splits)


lemma ftp_store_again:
  assumes "ftp_store L site dirs save_path final_archive w = (Inr (RPath p), w1)"
  shows "ftp_store L site dirs save_path final_archive (w1\<lparr>trace := tr\<rparr>)
         = (Inr (RPath p), w1\<lparr>trace := tr @ [FtpQuit]\<rparr>)"
proof -
  obtain T w' where st: "save_target L save_path final_archive w = (Inr T, w')"
    by (simp add: save_target_result)
  show ?thesis
  proof (cases "nodes w' T = None")
    case False
    with assms st have p: "p = T" and w1: "w1 = w'\<lparr>trace := trace w' @ [FtpQuit]\<rparr>"
      by (auto simp: ftp_store_def bind_def ret_def exists_def emit_def)
    have "save_target L save_path final_archive (w'\<lparr>trace := tr\<rparr>) = (Inr T, w'\<lparr>trace := tr\<rparr>)"
      by (rule save_target_again(1) [OF st])
    with False show ?thesis
      by (simp add: ftp_store_def bind_def ret_def exists_def emit_def p w1)
  next
    case True
    with assms st obtain bytes where p: "p = T"
      and w1: "w1 = w'\<lparr>nodes := (nodes w')(T \<mapsto> File bytes),
                      trace := trace w' @ [FtpRetr final_archive, FtpQuit]\<rparr>"
      by (auto simp: ftp_store_def ftp_retrieve_def bind_def ret_def raise_def exists_def
          emit_def write_file_def split: option.splits)
    have "save_target L save_path final_archive
            (w'\<lparr>nodes := (nodes w')(T \<mapsto> File bytes), trace := tr\<rparr>)
          = (Inr T, w'\<lparr>nodes := (nodes w')(T \<mapsto> File bytes), trace := tr\<rparr>)"
      by (rule save_target_again(2) [OF st])
    then show ?thesis
      by (simp add: ftp_store_def bind_def ret_def exists_def emit_def p w1)
  qed
qed

lemma html_store_again:
  assumes "html_store L W url save_path href w = (Inr (RPath p), w1)"
  shows "html_store L W url save_path href (w1\<lparr>trace := tr\<rparr>)
         = (Inr (RPath p), w1\<lparr>trace := tr\<rparr>)"
proof -
  let ?fa = "basename L (url_path L href)"
  let ?fu = "if url_netloc L href = [] then urljoin L url href else href"
  obtain T w' where st: "save_target L save_path ?fa w = (Inr T, w')"
    by (simp add: save_target_result)
  show ?thesis
  proof (cases "nodes w' T = None")
    case False
    with assms st have p: "p = T" and w1: "w1 = w'"
      by (auto simp: html_store_def bind_def ret_def exists_def Let_def)
    have "save_target L save_path ?fa (w'\<lparr>trace := tr\<rparr>) = (Inr T, w'\<lparr>trace := tr\<rparr>)"
      by (rule save_target_again(1) [OF st])
    with False show ?thesis
      by (simp add: html_store_def bind_def ret_def exists_def Let_def p w1)
  next
    case True
    with assms st obtain bytes where p: "p = T"
      and w1: "w1 = w'\<lparr>trace := trace w' @ [HttpRetrieve ?fu T],
                      nodes := (nodes w')(T \<mapsto> File bytes)\<rparr>"
      by (auto simp: html_store_def bind_def ret_def raise_def exists_def
          emit_def write_file_def Let_def split: option.splits if_splits)
    have "save_target L save_path ?fa
            (w'\<lparr>nodes := (nodes w')(T \<mapsto> File bytes), trace := tr\<rparr>)
          = (Inr T, w'\<lparr>nodes := (nodes w')(T \<mapsto> File bytes), trace := tr\<rparr>)"
      by (rule save_target_again(2) [OF st])
    then show ?thesis
      by (simp add: html_store_def bind_def ret_def exists_def Let_def p w1)
  qed
qed

text \<open>
  C5, as amended. When a call of ftp\_get or of html\_get returns a saving path, a second
  call with the same arguments, from the world the first call left and against the same
  server, returns the same path, changes no file, and transfers no file: it sends no
  \<open>RETR\<close> and makes no \<open>urlretrieve\<close> request. It does contact the server: what it adds
  to the trace are the commands of the session up to the choice of the archive, or the
  request for the page.
\<close>

theorem second_fetch_downloads_nothing:
  "(ftp_get L net server folder filename_re file_version_capture_group save_path
      preferred_version folder_re folder_version_capture_group preferred_folder_version w
      = (Inr (RPath p), w1) \<longrightarrow>
    (\<exists>tr. ftp_get L net server folder filename_re file_version_capture_group save_path
             preferred_version folder_re folder_version_capture_group
             preferred_folder_version w1
           = (Inr (RPath p), w1\<lparr>trace := trace w1 @ tr\<rparr>) \<and>
          list_all listing_event tr))
   \<and> (html_get L W url html_re html_group html_save_path html_version v
        = (Inr (RPath q), v1) \<longrightarrow>
      (\<exists>tr. html_get L W url html_re html_group html_save_path html_version v1
             = (Inr (RPath q), v1\<lparr>trace := trace v1 @ tr\<rparr>) \<and>
            list_all listing_event tr))"
proof (intro conjI impI)
  assume run: "ftp_get L net server folder filename_re file_version_capture_group save_path
      preferred_version folder_re folder_version_capture_group preferred_folder_version w
      = (Inr (RPath p), w1)"
  let ?site = "net (str_of server)"
  let ?loc = "ftp_locate L ?site (str_of server) (str_of folder) (str_of filename_re)
                 file_version_capture_group preferred_version folder_re
                 folder_version_capture_group preferred_folder_version"
  from run have guards: "\<not> falsy server" "\<not> falsy folder" "\<not> falsy filename_re"
    "\<not> file_version_capture_group < 1"
    by (auto simp: ftp_get_def ret_def split: if_splits)
  from ftp_locate_emits [of L ?site] obtain r tr where tr: "list_all listing_event tr"
    and loc: "\<And>w. ?loc w = (r, w\<lparr>trace := trace w @ tr\<rparr>)"
    unfolding only_emits_def by blast
  from run guards loc obtain dirs final_archive where r: "r = Inr (Some (dirs, final_archive))"
    and store: "ftp_store L ?site dirs save_path final_archive (w\<lparr>trace := trace w @ tr\<rparr>)
                = (Inr (RPath p), w1)"
    by (auto simp: ftp_get_def bind_def ret_def Let_def split: sum.splits option.splits)
  have "ftp_get L net server folder filename_re file_version_capture_group save_path
             preferred_version folder_re folder_version_capture_group
             preferred_folder_version w1
        = (Inr (RPath p), w1\<lparr>trace := trace w1 @ (tr @ [FtpQuit])\<rparr>)"
    using guards loc r ftp_store_again [OF store, of "trace w1 @ tr"]
    by (simp add: ftp_get_def bind_def Let_def)
  moreover have "list_all listing_event (tr @ [FtpQuit])" using tr by simp
  ultimately show "\<exists>tr. ftp_get L net server folder filename_re file_version_capture_group
             save_path preferred_version folder_re folder_version_capture_group
             preferred_folder_version w1
           = (Inr (RPath p), w1\<lparr>trace := trace w1 @ tr\<rparr>) \<and>
          list_all listing_event tr"
    by blast
next
  assume run: "html_get L W url html_re html_group html_save_path html_version v
        = (Inr (RPath q), v1)"
  let ?loc = "html_locate L W (str_of url) (str_of html_re) html_group html_version"
  from run have guards: "\<not> falsy url" "\<not> falsy html_re"
    by (auto simp: html_get_def ret_def split: if_splits)
  from html_locate_emits [of L W] obtain r tr where tr: "list_all listing_event tr"
    and loc: "\<And>w. ?loc w = (r, w\<lparr>trace := trace w @ tr\<rparr>)"
    unfolding only_emits_def by blast
  from run guards loc obtain href where r: "r = Inr href"
    and store: "html_store L W (str_of url) html_save_path href (v\<lparr>trace := trace v @ tr\<rparr>)
                = (Inr (RPath q), v1)"
    by (auto simp: html_get_def bind_def split: sum.splits)
  have "html_get L W url html_re html_group html_save_path html_version v1
        = (Inr (RPath q), v1\<lparr>trace := trace v1 @ tr\<rparr>)"
    using guards loc r html_store_again [OF store, of "trace v1 @ tr"]
    by (simp add: html_get_def bind_def)
  with tr show "\<exists>tr. html_get L W url html_re html_group html_save_path html_version v1
             = (Inr (RPath q), v1\<lparr>trace := trace v1 @ tr\<rparr>) \<and>
            list_all listing_event tr"
    by blast
qed

text \<open>
  A first fetch of pkg-2.5.tar.gz in the starting world, by FTP and from a page of links, and
  the second fetch after it.
\<close>

theorem second_fetch_downloads_nothing_witness:
  "ftp_get posix (\<lambda>server. gnu_site) (Some ''ftp.gnu.org'') (Some ''/pub/gnu/pkg/'')
      (Some ''pkg-([0-9.]+)[.]tar[.]gz'') 1 (Some ''dl/pkg.tar.gz'') ''99'' None 1 ''99''
      start_world
    = (Inr (RPath ''/home/user/dl/pkg.tar.gz''),
       snd (ftp_get posix (\<lambda>server. gnu_site) (Some ''ftp.gnu.org'') (Some ''/pub/gnu/pkg/'')
         (Some ''pkg-([0-9.]+)[.]tar[.]gz'') 1 (Some ''dl/pkg.tar.gz'') ''99'' None 1 ''99''
         start_world))
   \<and> html_get posix releases (Some ''https://example.org/releases/'')
        (Some ''pkg-([0-9.]+)[.]tar[.]gz'') 1 (Some ''dl/pkg.tar.gz'') ''99'' start_world
    = (Inr (RPath ''/home/user/dl/pkg.tar.gz''),
       snd (html_get posix releases (Some ''https://example.org/releases/'')
         (Some ''pkg-([0-9.]+)[.]tar[.]gz'') 1 (Some ''dl/pkg.tar.gz'') ''99'' start_world))
   \<and> (\<exists>tr. ftp_get posix (\<lambda>server. gnu_site) (Some ''ftp.gnu.org'') (Some ''/pub/gnu/pkg/'')
          (Some ''pkg-([0-9.]+)[.]tar[.]gz'') 1 (Some ''dl/pkg.tar.gz'') ''99'' None 1 ''99''
          (snd (ftp_get posix (\<lambda>server. gnu_site) (Some ''ftp.gnu.org'')
            (Some ''/pub/gnu/pkg/'') (Some ''pkg-([0-9.]+)[.]tar[.]gz'') 1
            (Some ''dl/pkg.tar.gz'') ''99'' None 1 ''99'' start_world))
        = (Inr (RPath ''/home/user/dl/pkg.tar.gz''),
           (snd (ftp_get posix (\<lambda>server. gnu_site) (Some ''ftp.gnu.org'')
             (Some ''/pub/gnu/pkg/'') (Some ''pkg-([0-9.]+)[.]tar[.]gz'') 1
             (Some ''dl/pkg.tar.gz'') ''99'' None 1 ''99'' start_world))
           \<lparr>trace := trace (snd (ftp_get posix (\<lambda>server. gnu_site) (Some ''ftp.gnu.org'')
             (Some ''/pub/gnu/pkg/'') (Some ''pkg-([0-9.]+)[.]tar[.]gz'') 1
             (Some ''dl/pkg.tar.gz'') ''99'' None 1 ''99'' start_world)) @ tr\<rparr>)
        \<and> list_all listing_event tr)
   \<and> (\<exists>tr. html_get posix releases (Some ''https://example.org/releases/'')
          (Some ''pkg-([0-9.]+)[.]tar[.]gz'') 1 (Some ''dl/pkg.tar.gz'') ''99''
          (snd (html_get posix releases (Some ''https://example.org/releases/'')
            (Some ''pkg-([0-9.]+)[.]tar[.]gz'') 1 (Some ''dl/pkg.tar.gz'') ''99'' start_world))
        = (Inr (RPath ''/home/user/dl/pkg.tar.gz''),
           (snd (html_get posix releases (Some ''https://example.org/releases/'')
             (Some ''pkg-([0-9.]+)[.]tar[.]gz'') 1 (Some ''dl/pkg.tar.gz'') ''99'' start_world))
           \<lparr>trace := trace (snd (html_get posix releases
             (Some ''https://example.org/releases/'') (Some ''pkg-([0-9.]+)[.]tar[.]gz'') 1
             (Some ''dl/pkg.tar.gz'') ''99'' start_world)) @ tr\<rparr>)
        \<and> list_all listing_event tr)"
proof -
  let ?f = "ftp_get posix (\<lambda>server. gnu_site) (Some ''ftp.gnu.org'') (Some ''/pub/gnu/pkg/'')
      (Some ''pkg-([0-9.]+)[.]tar[.]gz'') 1 (Some ''dl/pkg.tar.gz'') ''99'' None 1 ''99''"
  let ?h = "html_get posix releases (Some ''https://example.org/releases/'')
        (Some ''pkg-([0-9.]+)[.]tar[.]gz'') 1 (Some ''dl/pkg.tar.gz'') ''99''"
  have f1: "fst (?f start_world) = Inr (RPath ''/home/user/dl/pkg.tar.gz'')"
    by (simp add: run_defs)
  have h1: "fst (?h start_world) = Inr (RPath ''/home/user/dl/pkg.tar.gz'')"
    by (simp add: run_defs)
  have f2: "?f start_world = (Inr (RPath ''/home/user/dl/pkg.tar.gz''), snd (?f start_world))"
    using f1 by (metis prod.collapse)
  have h2: "?h start_world = (Inr (RPath ''/home/user/dl/pkg.tar.gz''), snd (?h start_world))"
    using h1 by (metis prod.collapse)
  from second_fetch_downloads_nothing
    [of posix "\<lambda>server. gnu_site" "Some ''ftp.gnu.org''" "Some ''/pub/gnu/pkg/''"
        "Some ''pkg-([0-9.]+)[.]tar[.]gz''" 1 "Some ''dl/pkg.tar.gz''" "''99''" None 1 "''99''"
        start_world "''/home/user/dl/pkg.tar.gz''" "snd (?f start_world)"
        releases "Some ''https://example.org/releases/''" "Some ''pkg-([0-9.]+)[.]tar[.]gz''" 1
        "Some ''dl/pkg.tar.gz''" "''99''" start_world "''/home/user/dl/pkg.tar.gz''"
        "snd (?h start_world)"]
    f2 h2
  show ?thesis by blast
qed

text \<open>
  C5, as stated, says that the second call performs no network I/O. The second call of
  ftp\_get connects, logs in, changes directory and lists the directory before it finds the
  file on disk: it adds six commands to the trace, none of them \<open>RETR\<close>.
\<close>

theorem second_fetch_contacts_server:
  "trace (snd (ftp_get posix (\<lambda>server. gnu_site) (Some ''ftp.gnu.org'') (Some ''/pub/gnu/pkg/'')
      (Some ''pkg-([0-9.]+)[.]tar[.]gz'') 1 (Some ''dl/pkg.tar.gz'') ''99'' None 1 ''99''
      start_world))
   = [FtpConnect ''ftp.gnu.org'', FtpLogin, FtpCwd ''/pub/gnu/pkg/'', FtpMlsd, FtpNlst,
      FtpRetr ''pkg-2.5.tar.gz'', FtpQuit]
   \<and> nodes (snd (ftp_get posix (\<lambda>server. gnu_site) (Some ''ftp.gnu.org'')
      (Some ''/pub/gnu/pkg/'') (Some ''pkg-([0-9.]+)[.]tar[.]gz'') 1 (Some ''dl/pkg.tar.gz'')
      ''99'' None 1 ''99'' start_world)) ''/home/user/dl/pkg.tar.gz''
     = Some (File ''archive pkg-2.5.tar.gz'')
   \<and> trace (snd (ftp_get posix (\<lambda>server. gnu_site) (Some ''ftp.gnu.org'')
      (Some ''/pub/gnu/pkg/'') (Some ''pkg-([0-9.]+)[.]tar[.]gz'') 1 (Some ''dl/pkg.tar.gz'')
      ''99'' None 1 ''99''
      (snd (ftp_get posix (\<lambda>server. gnu_site) (Some ''ftp.gnu.org'') (Some ''/pub/gnu/pkg/'')
        (Some ''pkg-([0-9.]+)[.]tar[.]gz'') 1 (Some ''dl/pkg.tar.gz'') ''99'' None 1 ''99''
        start_world))))
   = [FtpConnect ''ftp.gnu.org'', FtpLogin, FtpCwd ''/pub/gnu/pkg/'', FtpMlsd, FtpNlst,
      FtpRetr ''pkg-2.5.tar.gz'', FtpQuit]
     @ [FtpConnect ''ftp.gnu.org'', FtpLogin, FtpCwd ''/pub/gnu/pkg/'', FtpMlsd, FtpNlst,
        FtpQuit]"
  by (simp add: run_defs)

text \<open>
  C9. When the server name, the base folder or the filename pattern is empty or \<open>None\<close>,
  or the capture group of the file version is less than 1, ftp\_get returns \<open>None\<close> and
  leaves the world as it is: nothing is added to the trace and no file is touched.
\<close>

theorem ftp_get_guards:
  assumes "falsy server \<or> falsy folder \<or> falsy filename_re \<or> file_version_capture_group < 1"
  shows "ftp_get L net server folder filename_re file_version_capture_group save_path
           preferred_version folder_re folder_version_capture_group preferred_folder_version w
         = (Inr RNone, w)"
  using assms by (auto simp: ftp_get_def ret_def)

theorem ftp_get_guards_witness:
  "(falsy (Some ''ftp.gnu.org'') \<or> falsy (Some '''') \<or>
    falsy (Some ''pkg-([0-9.]+)[.]tar[.]gz'') \<or> (1::int) < 1)
   \<and> ftp_get posix (\<lambda>server. gnu_site) (Some ''ftp.gnu.org'') (Some '''')
        (Some ''pkg-([0-9.]+)[.]tar[.]gz'') 1 (Some ''dl/pkg.tar.gz'') ''99'' None 1 ''99''
        start_world
      = (Inr RNone, start_world)
   \<and> ftp_get posix (\<lambda>server. gnu_site) (Some ''ftp.gnu.org'') (Some ''/pub/gnu/pkg/'')
        (Some ''pkg-([0-9.]+)[.]tar[.]gz'') 0 (Some ''dl/pkg.tar.gz'') ''99'' None 1 ''99''
        start_world
      = (Inr RNone, start_world)
   \<and> ftp_get posix (\<lambda>server. gnu_site) None (Some ''/pub/gnu/pkg/'')
        (Some ''pkg-([0-9.]+)[.]tar[.]gz'') 1 (Some ''dl/pkg.tar.gz'') ''99'' None 1 ''99''
        start_world
      = (Inr RNone, start_world)"
proof -
  have h: "falsy (Some ''ftp.gnu.org'') \<or> falsy (Some '''') \<or>
    falsy (Some ''pkg-([0-9.]+)[.]tar[.]gz'') \<or> (1::int) < 1"
    by (simp add: falsy_def)
  have h0: "falsy (Some ''ftp.gnu.org'') \<or> falsy (Some ''/pub/gnu/pkg/'') \<or>
    falsy (Some ''pkg-([0-9.]+)[.]tar[.]gz'') \<or> (0::int) < 1"
    by simp
  have hn: "falsy None \<or> falsy (Some ''/pub/gnu/pkg/'') \<or>
    falsy (Some ''pkg-([0-9.]+)[.]tar[.]gz'') \<or> (1::int) < 1"
    by (simp add: falsy_def)
  show ?thesis
    by (intro conjI) (rule h, rule ftp_get_guards [OF h], rule ftp_get_guards [OF h0],
      rule ftp_get_guards [OF hn])
qed

section \<open>Properties of set\_env and restore\_env\<close>

text \<open>
  set\_env returns the saved values when both variables are set and both directories
  can be entered.
\<close>

lemma set_env_returns:
  assumes "environ w ''PATH'' = Some p" and "environ w ''CC'' = Some c"
    and "nodes w WORK_FOLDER = Some Dir" and "nodes w (cwd w) = Some Dir"
  shows "\<exists>w1. set_env L WORK_FOLDER x86_64 w = (Inr \<lparr>old_path = p, old_cc = c\<rparr>, w1)"
  using assms
  by (auto simp: set_env_def bind_def ret_def lift_def environ_get_def
      environ_set_def getcwd_def chdir_def getitem_def LOCATIONS_def Let_def)

text \<open>
  C10. When \<open>PATH\<close> and \<open>CC\<close> are set and not empty, restore\_env on the map returned
  by set\_env gives both variables the values they had before set\_env was called.
\<close>

theorem restore_env_roundtrip:
  assumes "environ w ''PATH'' = Some p" and "environ w ''CC'' = Some c"
    and "p \<noteq> []" and "c \<noteq> []"
    and "set_env L WORK_FOLDER x86_64 w = (Inr old_env, w1)"
  shows "\<exists>w2. restore_env old_env w1 = (Inr (), w2) \<and>
           environ w2 ''PATH'' = Some p \<and> environ w2 ''CC'' = Some c"
  using assms
  by (auto simp: set_env_def restore_env_def bind_def ret_def lift_def environ_get_def
      environ_set_def getcwd_def chdir_def getitem_def LOCATIONS_def Let_def
      split: if_splits option.splits sum.splits prod.splits)

theorem restore_env_roundtrip_witness:
  "environ start_world ''PATH'' = Some ''/usr/bin'' \<and> environ start_world ''CC'' = Some ''clang''
   \<and> ''/usr/bin'' \<noteq> [] \<and> ''clang'' \<noteq> []
   \<and> set_env posix ''/home/user/MWTC'' True start_world
      = (Inr \<lparr>old_path = ''/usr/bin'', old_cc = ''clang''\<rparr>,
         snd (set_env posix ''/home/user/MWTC'' True start_world))
   \<and> environ (snd (set_env posix ''/home/user/MWTC'' True start_world)) ''PATH''
      = Some ''/home/user/MWTC/mingw-w64-x86_64/bin:/usr/bin''
   \<and> environ (snd (set_env posix ''/home/user/MWTC'' True start_world)) ''CC'' = Some ''gcc''
   \<and> (\<exists>w2. restore_env \<lparr>old_path = ''/usr/bin'', old_cc = ''clang''\<rparr>
               (snd (set_env posix ''/home/user/MWTC'' True start_world)) = (Inr (), w2) \<and>
             environ w2 ''PATH'' = Some ''/usr/bin'' \<and> environ w2 ''CC'' = Some ''clang'')"
proof -
  let ?s = "set_env posix ''/home/user/MWTC'' True start_world"
  have h1: "environ start_world ''PATH'' = Some ''/usr/bin''" by (simp add: start_world_def)
  have h2: "environ start_world ''CC'' = Some ''clang''" by (simp add: start_world_def)
  have h3: "''/usr/bin'' \<noteq> []" and h4: "''clang'' \<noteq> []" by simp_all
  have f: "fst ?s = Inr \<lparr>old_path = ''/usr/bin'', old_cc = ''clang''\<rparr>"
    by (simp add: run_defs)
  have h5: "?s = (Inr \<lparr>old_path = ''/usr/bin'', old_cc = ''clang''\<rparr>, snd ?s)"
    using f by (metis prod.collapse)
  have e1: "environ (snd ?s) ''PATH'' = Some ''/home/user/MWTC/mingw-w64-x86_64/bin:/usr/bin''"
    by (simp add: run_defs)
  have e2: "environ (snd ?s) ''CC'' = Some ''gcc''" by (simp add: run_defs)
  from restore_env_roundtrip [OF h1 h2 h3 h4 h5] h1 h2 h3 h4 h5 e1 e2
  show ?thesis by blast
qed

end
